theory Spec2Isabelle
  imports Complex_Main
begin

section \<open>Numbers\<close>

text \<open>
  The component \<open>Map3D\<close> computes with JavaScript numbers. They are modelled as
  real numbers: rounding is not represented, and neither are \<open>NaN\<close> and the two
  infinities. The places where the script can produce such a value from finite input are
  written out below: the centroid of a ring with fewer than two positions and the
  bounding box of an empty ring return \<open>None\<close>. Two further places are outside the
  model: a latitude whose cosine is exactly zero, and a host scale factor of zero.
\<close>

text \<open>\<open>a || b\<close> on numbers: \<open>0\<close> is the only falsy finite number.\<close>

definition jsOr :: "real \<Rightarrow> real \<Rightarrow> real" where
  "jsOr a b = (if a = 0 then b else a)"

text \<open>\<open>a % b\<close>: the remainder of the division truncated towards zero, so the result
  has the sign of \<open>a\<close>.\<close>

definition jsTrunc :: "real \<Rightarrow> int" where
  "jsTrunc x = (if x < 0 then \<lceil>x\<rceil> else \<lfloor>x\<rfloor>)"

definition jsRem :: "real \<Rightarrow> real \<Rightarrow> real" where
  "jsRem a b = a - b * of_int (jsTrunc (a / b))"

section \<open>Coordinate helpers and footprints\<close>

type_synonym position = "real \<times> real"

type_synonym ring = "position list"

definition metersToLatDegrees :: "real \<Rightarrow> real" where
  "metersToLatDegrees meters = meters / 111320"

definition metersToLngDegrees :: "real \<Rightarrow> real \<Rightarrow> real" where
  "metersToLngDegrees meters lat = meters / (111320 * cos ((lat * pi) / 180))"

text \<open>One corner of the rectangle: the body of the \<open>local.map\<close> callback.\<close>

definition rectangleCorner :: "real \<Rightarrow> real \<Rightarrow> real \<Rightarrow> real \<Rightarrow> position \<Rightarrow> position" where
  "rectangleCorner lng lat c s d =
     (let dLng = metersToLngDegrees (fst d) lat;
          dLat = metersToLatDegrees (snd d);
          rx = dLng * c - dLat * s;
          ry = dLng * s + dLat * c
      in (lng + rx, lat + ry))"

definition rectanglePolygonAround :: "real \<Rightarrow> real \<Rightarrow> real \<Rightarrow> real \<Rightarrow> real \<Rightarrow> ring" where
  "rectanglePolygonAround lng lat widthMeters depthMeters rotationDeg =
     (let hw = widthMeters / 2;
          hd = depthMeters / 2;
          local = [(- hw, - hd), (hw, - hd), (hw, hd), (- hw, hd)];
          angle = (rotationDeg * pi) / 180;
          coords = map (rectangleCorner lng lat (cos angle) (sin angle)) local
      in coords @ [coords ! 0])"

text \<open>
  The loop of \<open>circlePolygonAround\<close>: \<open>for (let i = 0; i < segments; i++)\<close> runs once
  for every natural number below \<open>segments\<close>, that is \<open>\<lceil>segments\<rceil>\<close> times, and not at
  all when \<open>segments \<le> 0\<close>.
\<close>

definition circlePoint :: "real \<Rightarrow> real \<Rightarrow> real \<Rightarrow> real \<Rightarrow> nat \<Rightarrow> position" where
  "circlePoint lng lat radiusMeters segments i =
     (let angle = (real i / segments) * pi * 2;
          dx = cos angle * radiusMeters;
          dy = sin angle * radiusMeters;
          dLng = metersToLngDegrees dx lat;
          dLat = metersToLatDegrees dy
      in (lng + dLng, lat + dLat))"

definition circleLoop :: "real \<Rightarrow> real \<Rightarrow> real \<Rightarrow> real \<Rightarrow> ring" where
  "circleLoop lng lat radiusMeters segments =
     map (circlePoint lng lat radiusMeters segments) [0 ..< nat \<lceil>segments\<rceil>]"

text \<open>
  \<open>coords.push(coords[0])\<close> on an array that may be empty: reading index 0 of an empty
  array gives \<open>undefined\<close>, which is pushed. An entry of the result is \<open>Some p\<close> for a
  position and \<open>None\<close> for \<open>undefined\<close>.
\<close>

definition pushFirst :: "ring \<Rightarrow> position option list" where
  "pushFirst coords =
     map Some coords @ [case coords of [] \<Rightarrow> None | c # _ \<Rightarrow> Some c]"

definition circlePolygonAround :: "real \<Rightarrow> real \<Rightarrow> real \<Rightarrow> real \<Rightarrow> position option list" where
  "circlePolygonAround lng lat radiusMeters segments =
     pushFirst (circleLoop lng lat radiusMeters segments)"

text \<open>\<open>polygonCentroid\<close> and \<open>polygonCentroidCoords\<close> have the same body: the mean
  of all positions but the last. With no position left the script divides \<open>0 / 0\<close>.\<close>

definition polygonCentroid :: "ring \<Rightarrow> position option" where
  "polygonCentroid coords =
     (let pts = butlast coords;
          acc = fold (\<lambda>p (x, y). (x + fst p, y + snd p)) pts (0, 0)
      in if pts = [] then None
         else Some (fst acc / real (length pts), snd acc / real (length pts)))"

definition polygonCentroidCoords :: "ring \<Rightarrow> position option" where
  "polygonCentroidCoords coords = polygonCentroid coords"

text \<open>\<open>polygonBBox\<close>: the four accumulators start at plus or minus infinity, written
  \<open>None\<close>, and the first position replaces all four.\<close>

record bbox =
  minLng :: "real option"
  minLat :: "real option"
  maxLng :: "real option"
  maxLat :: "real option"

definition lowerTo :: "real \<Rightarrow> real option \<Rightarrow> real option" where
  "lowerTo v m = (case m of None \<Rightarrow> Some v | Some u \<Rightarrow> if v < u then Some v else Some u)"

definition raiseTo :: "real \<Rightarrow> real option \<Rightarrow> real option" where
  "raiseTo v m = (case m of None \<Rightarrow> Some v | Some u \<Rightarrow> if v > u then Some v else Some u)"

definition polygonBBox :: "ring \<Rightarrow> bbox" where
  "polygonBBox coords =
     fold (\<lambda>c b. \<lparr> minLng = lowerTo (fst c) (minLng b),
                   minLat = lowerTo (snd c) (minLat b),
                   maxLng = raiseTo (fst c) (maxLng b),
                   maxLat = raiseTo (snd c) (maxLat b) \<rparr>)
          coords
          \<lparr> minLng = None, minLat = None, maxLng = None, maxLat = None \<rparr>"

section \<open>Features\<close>

text \<open>
  A building feature as the component creates and reads it. Every property is optional
  in the source type, so every field is an option. Of the geometry only
  \<open>coordinates[0]\<close>, the outer ring, is ever read; \<open>polygon\<close> is that ring.
\<close>

record props =
  prop_id :: "string option"
  prop_height :: "real option"
  prop_base :: "real option"
  prop_color :: "string option"
  prop_rotation :: "real option"
  prop_content :: "string option"

record building =
  properties :: props
  polygon :: ring

record tree =
  tree_id :: "string option"
  tree_size :: "real option"
  point :: position

text \<open>\<open>features.findIndex(f => f.properties && f.properties.id === selectedId)\<close>:
  the first index whose id is the selected one, \<open>None\<close> for \<open>-1\<close>.\<close>

fun findIndexFrom :: "nat \<Rightarrow> ('a \<Rightarrow> bool) \<Rightarrow> 'a list \<Rightarrow> nat option" where
  "findIndexFrom i P [] = None"
| "findIndexFrom i P (x # xs) = (if P x then Some i else findIndexFrom (Suc i) P xs)"

definition findIndex :: "('a \<Rightarrow> bool) \<Rightarrow> 'a list \<Rightarrow> nat option" where
  "findIndex P xs = findIndexFrom 0 P xs"

definition hasId :: "string \<Rightarrow> building \<Rightarrow> bool" where
  "hasId i f = (prop_id (properties f) = Some i)"

definition treeHasId :: "string \<Rightarrow> tree \<Rightarrow> bool" where
  "treeHasId i t = (tree_id t = Some i)"

text \<open>\<open>features.splice(idx, 1)\<close>.\<close>

definition splice1 :: "nat \<Rightarrow> 'a list \<Rightarrow> 'a list" where
  "splice1 idx xs = take idx xs @ drop (Suc idx) xs"

section \<open>The three.js layer manager\<close>

text \<open>
  A call that can throw returns the state it has reached together with how it ended:
  \<open>Returned\<close> for a normal return, \<open>Threw\<close> for an exception that leaves the call.
\<close>

datatype 'a outcome = Returned 'a | Threw 'a

fun stateOf :: "'a outcome \<Rightarrow> 'a" where
  "stateOf (Returned x) = x"
| "stateOf (Threw x) = x"

fun threw :: "'a outcome \<Rightarrow> bool" where
  "threw (Returned x) = False"
| "threw (Threw x) = True"

text \<open>
  What the host map library supplies to \<open>buildMeshFromPolygon\<close>; the library is not
  part of the repository, so both are parameters.
  \<open>MercatorCoordinate.fromLngLat\<close> gives the planar \<open>x\<close> and \<open>y\<close> of a position, or
  throws: the result is \<open>None\<close> where it throws (the library refuses a latitude outside
  \<open>[-90, 90]\<close> and a coordinate that is \<open>NaN\<close>). The position handed over is \<open>None\<close>
  when it is \<open>NaN\<close>, which happens for the centroid of a ring with fewer than two
  positions. The property \<open>meterInMercatorCoordinateUnits\<close> read off the centre's
  coordinate is either absent (the script then takes 1), a number, or a value that is not
  a number (the division then gives \<open>NaN\<close>, which is falsy, and the script falls back to
  the height itself).
\<close>

datatype merc_unit = Missing | Units real | NonNumeric

record host =
  fromLngLat :: "position option \<Rightarrow> (real \<times> real) option"
  meterInMercatorCoordinateUnits :: "position option \<Rightarrow> merc_unit"

text \<open>
  A mesh object. \<open>extrudeDepth\<close> is the \<open>depth\<close> of the extrude settings the
  geometry was built with, \<open>shapePoints\<close> the outline of the shape, \<open>scale_z\<close> is
  \<open>mesh.scale.z\<close>. A new mesh has scale 1 and an empty \<open>userData\<close>.
\<close>

record mesh =
  userData_id :: "string option"
  userData_heightMeters :: "real option"
  scale_z :: real
  extrudeDepth :: real
  shapePoints :: "(real \<times> real) list"
  materialColor :: string
  emissiveIntensity :: real

text \<open>
  \<open>buildMeshFromPolygon\<close> projects every position of the ring, in order, and then the
  centroid; the first projection that throws ends the call, and the result is \<open>None\<close>.
\<close>

definition buildMeshFromPolygon :: "host \<Rightarrow> ring \<Rightarrow> real \<Rightarrow> string \<Rightarrow> mesh option" where
  "buildMeshFromPolygon H polygonCoords heightMeters colorHex =
     (case those (map (\<lambda>p. fromLngLat H (Some p)) polygonCoords) of
        None \<Rightarrow> None
      | Some mcs \<Rightarrow>
          (let mercCoords = map (\<lambda>mc. (fst mc, - snd mc)) mcs;
               center = polygonCentroidCoords polygonCoords
           in case fromLngLat H center of
                None \<Rightarrow> None
              | Some mcCenter \<Rightarrow>
                  (let depth = (case meterInMercatorCoordinateUnits H center of
                                  Missing \<Rightarrow> jsOr (heightMeters / 1) heightMeters
                                | Units meterToMerc \<Rightarrow>
                                    jsOr (heightMeters / meterToMerc) heightMeters
                                | NonNumeric \<Rightarrow> heightMeters)
                   in Some \<lparr> userData_id = None,
                             userData_heightMeters = None,
                             scale_z = 1,
                             extrudeDepth = jsOr depth 1,
                             shapePoints = mercCoords,
                             materialColor = colorHex,
                             emissiveIntensity = 0.2 \<rparr>)))"

text \<open>
  Mesh objects are shared by reference between the scene, the index \<open>manager.meshes\<close>
  and the animation callbacks that closed over them. The model keeps them in a store,
  \<open>heap\<close>: a reference is an index into it, a new mesh is appended, and no mesh is
  ever taken out (an object lives as long as something refers to it).

  The two animation callbacks. Each closes over its mesh and its start time; the rise
  callback has its duration 700 and its values 0.001 and 1 as constants, the height
  callback its duration 500 and the two values computed by \<open>updateHeight\<close>.
\<close>

type_synonym mesh_ref = nat

datatype anim =
  Rise mesh_ref real
| Height mesh_ref real real real

fun animMesh :: "anim \<Rightarrow> mesh_ref" where
  "animMesh (Rise m start) = m"
| "animMesh (Height m start from to) = m"

fun animStart :: "anim \<Rightarrow> real" where
  "animStart (Rise m start) = start"
| "animStart (Height m start from to) = start"

fun animDur :: "anim \<Rightarrow> real" where
  "animDur (Rise m start) = 700"
| "animDur (Height m start from to) = 500"

fun animFrom :: "anim \<Rightarrow> real" where
  "animFrom (Rise m start) = 0.001"
| "animFrom (Height m start from to) = from"

fun animTo :: "anim \<Rightarrow> real" where
  "animTo (Rise m start) = 1"
| "animTo (Height m start from to) = to"

text \<open>What the manager asks of the renderer and of the host map, in order.\<close>

datatype call =
  RendererRender "mesh_ref list" "real list"
| TriggerRepaint

text \<open>
  The manager object together with the browser state its functions touch: the mesh
  objects and the queue of callbacks handed to \<open>requestAnimationFrame\<close>.
  \<open>scene\<close> lists the meshes among the scene's children (the two lights are left out),
  \<open>None\<close> while \<open>manager.scene\<close> is undefined; \<open>camera\<close> is the camera's projection
  matrix, \<open>None\<close> while \<open>manager.camera\<close> is undefined. \<open>meshes\<close> is the \<open>Map\<close> from
  feature id to mesh, in insertion order.
\<close>

record world =
  renderer :: bool
  scene :: "mesh_ref list option"
  camera :: "real list option"
  clock :: bool
  meshes :: "(string \<times> mesh_ref) list"
  heap :: "mesh list"
  frames :: "anim list"
  calls :: "call list"

definition mapDelete :: "string \<Rightarrow> (string \<times> 'v) list \<Rightarrow> (string \<times> 'v) list" where
  "mapDelete k m = filter (\<lambda>e. fst e \<noteq> k) m"

definition mapSet :: "string \<Rightarrow> 'v \<Rightarrow> (string \<times> 'v) list \<Rightarrow> (string \<times> 'v) list" where
  "mapSet k v m =
     (if k \<in> fst ` set m then map (\<lambda>e. if fst e = k then (k, v) else e) m
      else m @ [(k, v)])"

text \<open>\<open>manager.scene?.remove(m)\<close> and \<open>manager.scene?.add(m)\<close>; the mesh added is
  always a new one, which has no parent yet.\<close>

definition sceneRemove :: "mesh_ref \<Rightarrow> mesh_ref list option \<Rightarrow> mesh_ref list option" where
  "sceneRemove m sc = map_option (removeAll m) sc"

definition sceneAdd :: "mesh_ref \<Rightarrow> mesh_ref list option \<Rightarrow> mesh_ref list option" where
  "sceneAdd m sc = map_option (\<lambda>children. children @ [m]) sc"

definition createThreeLayerManager :: world where
  "createThreeLayerManager =
     \<lparr> renderer = False, scene = None, camera = None, clock = False,
       meshes = [], heap = [], frames = [], calls = [] \<rparr>"

definition identity4 :: "real list" where
  "identity4 = [1, 0, 0, 0, 0, 1, 0, 0, 0, 0, 1, 0, 0, 0, 0, 1]"

definition onAdd :: "world \<Rightarrow> world" where
  "onAdd w = w\<lparr> renderer := True, scene := Some [], camera := Some identity4, clock := True \<rparr>"

text \<open>
  \<open>addMeshForFeature\<close>. \<open>rid\<close> is what \<open>cryptoRandomId()\<close> returns and \<open>now\<close> what
  \<open>performance.now()\<close> returns in this call. The mesh of the same id, if there is one,
  is taken out before the new mesh is built; where building throws, the call ends there.
\<close>

definition addMeshForFeature ::
  "host \<Rightarrow> string \<Rightarrow> real \<Rightarrow> building \<Rightarrow> world \<Rightarrow> world outcome" where
  "addMeshForFeature H rid now feature w =
     (let i = (case prop_id (properties feature) of Some j \<Rightarrow> j | None \<Rightarrow> rid);
          w1 = (case map_of (meshes w) i of
                  Some old \<Rightarrow> w\<lparr> scene := sceneRemove old (scene w),
                                 meshes := mapDelete i (meshes w) \<rparr>
                | None \<Rightarrow> w);
          coords = polygon feature;
          color = (case prop_color (properties feature) of Some c \<Rightarrow> c | None \<Rightarrow> ''#c44e3b'');
          height = (case prop_height (properties feature) of Some h \<Rightarrow> h | None \<Rightarrow> 10)
      in case buildMeshFromPolygon H coords height color of
           None \<Rightarrow> Threw w1
         | Some built \<Rightarrow>
             (let m = built\<lparr> userData_id := Some i, userData_heightMeters := Some height \<rparr>;
                  r = length (heap w1)
              in Returned
                   (w1\<lparr> heap := heap w1 @ [m\<lparr> scale_z := 0.001 \<rparr>],
                        scene := sceneAdd r (scene w1),
                        meshes := mapSet i r (meshes w1),
                        frames := frames w1 @ [Rise r now] \<rparr>)))"

definition removeById :: "string \<Rightarrow> world \<Rightarrow> world" where
  "removeById i w =
     (case map_of (meshes w) i of
        None \<Rightarrow> w
      | Some m \<Rightarrow>
          (case scene w of
             None \<Rightarrow> w
           | Some children \<Rightarrow>
               w\<lparr> scene := Some (removeAll m children), meshes := mapDelete i (meshes w) \<rparr>))"

definition updateHeight :: "string \<Rightarrow> real \<Rightarrow> real \<Rightarrow> world \<Rightarrow> world" where
  "updateHeight i heightMeters now w =
     (case map_of (meshes w) i of
        None \<Rightarrow> w
      | Some r \<Rightarrow>
          (let m = heap w ! r;
               old = (case userData_heightMeters m of Some h \<Rightarrow> h | None \<Rightarrow> heightMeters);
               newH = heightMeters;
               from = scale_z m;
               to = newH / jsOr old (jsOr newH 1)
           in w\<lparr> heap := (heap w)[r := m\<lparr> userData_heightMeters := Some newH \<rparr>],
                 frames := frames w @ [Height r now from to] \<rparr>))"

text \<open>
  One run of an animation callback with the frame's timestamp \<open>now\<close>. It writes the
  scale of the mesh it closed over, wherever that mesh is by now, and hands itself to
  \<open>requestAnimationFrame\<close> again while \<open>t < 1\<close>.
\<close>

definition easeOutCubic :: "real \<Rightarrow> real" where
  "easeOutCubic t = 1 - (1 - t) ^ 3"

definition animProgress :: "real \<Rightarrow> anim \<Rightarrow> real" where
  "animProgress now a = min 1 ((now - animStart a) / animDur a)"

definition setScale :: "mesh_ref \<Rightarrow> real \<Rightarrow> mesh list \<Rightarrow> mesh list" where
  "setScale r v h = h[r := (h ! r)\<lparr> scale_z := v \<rparr>]"

definition runAnim :: "real \<Rightarrow> anim \<Rightarrow> world \<Rightarrow> world" where
  "runAnim now a w =
     (let t = animProgress now a;
          eased = easeOutCubic t;
          h1 = setScale (animMesh a) (animFrom a + (animTo a - animFrom a) * eased) (heap w)
      in if t < 1 then w\<lparr> heap := h1, frames := frames w @ [a] \<rparr>
         else w\<lparr> heap := setScale (animMesh a) (animTo a) h1 \<rparr>)"

text \<open>An animation frame of the browser: every queued callback runs once, in the order
  of its request; the callbacks requested meanwhile wait for the next frame.\<close>

definition animationFrame :: "real \<Rightarrow> world \<Rightarrow> world" where
  "animationFrame now w = fold (runAnim now) (frames w) (w\<lparr> frames := [] \<rparr>)"

text \<open>The render callback of the custom layer. \<open>matrix\<close> is the array the host passes
  for this frame, \<open>t\<close> what \<open>clock.getElapsedTime()\<close> returns.\<close>

definition fromArray :: "real list \<Rightarrow> real list" where
  "fromArray matrix = take 16 matrix"

definition idHash :: "string \<Rightarrow> nat" where
  "idHash i = fold (\<lambda>ch s. (s + of_char ch) mod 1000) i 0"

definition blink :: "real \<Rightarrow> mesh \<Rightarrow> mesh" where
  "blink t m =
     (let i = (case userData_id m of Some j \<Rightarrow> j | None \<Rightarrow> []);
          hash = idHash i;
          phase = jsRem (t * 0.8 + real (hash mod 10) * 0.12) (pi * 2)
      in m\<lparr> emissiveIntensity := 0.08 + 0.4 * \<bar>sin phase\<bar> \<rparr>)"

definition render :: "real list \<Rightarrow> real \<Rightarrow> world \<Rightarrow> world" where
  "render matrix t w =
     (if \<not> renderer w \<or> scene w = None \<or> camera w = None \<or> \<not> clock w then w
      else
        (let m = fromArray matrix;
             h1 = fold (\<lambda>r h. h[r := blink t (h ! r)]) (map snd (meshes w)) (heap w)
         in w\<lparr> camera := Some m,
               heap := h1,
               calls := calls w @ [RendererRender (case scene w of Some c \<Rightarrow> c | None \<Rightarrow> []) m,
                                   TriggerRepaint] \<rparr>))"

definition dispose :: "world \<Rightarrow> world" where
  "dispose w =
     w\<lparr> scene := None, camera := None, renderer := False, meshes := [] \<rparr>"

section \<open>The component: sources, storage and the operations of the panel\<close>

datatype placing = PlaceBuilding | PlaceTree

datatype shape = Rectangle | Circle | Custom

fun shapeName :: "shape \<Rightarrow> string" where
  "shapeName Rectangle = ''rectangle''"
| "shapeName Circle = ''circle''"
| "shapeName Custom = ''custom''"

text \<open>The callback handed to \<open>setTimeout\<close> by \<open>appendBuildingFeature\<close>: it closed
  over the feature's id and the target height, and is due 450 ms after the call.\<close>

record deferred =
  due :: real
  forId :: string
  targetHeight :: real

text \<open>
  The state of the component. \<open>user_buildings\<close> and \<open>user_trees\<close> are the features of
  the two GeoJSON sources of the map (\<open>None\<close>: the source does not exist),
  \<open>stored_buildings\<close> and \<open>stored_trees\<close> what local storage holds under the two keys.
  A source holds what \<open>setData\<close> was given last, which is what the script reads back
  as \<open>_data\<close>; writing a source and writing storage are taken to succeed.
\<close>

record app =
  map_current :: bool
  user_buildings :: "building list option"
  user_trees :: "tree list option"
  stored_buildings :: "building list option"
  stored_trees :: "tree list option"
  buildingsCount :: nat
  treesCount :: nat
  error :: "string option"
  selectedId :: "string option"
  threeManagerRef :: "world option"
  timeouts :: "deferred list"
  placingType :: placing
  shape :: shape
  buildingColor :: string
  buildingWidth :: real
  buildingDepth :: real
  buildingHeight :: real
  circleRadius :: real
  treeSize :: real

text \<open>\<open>!selectedId\<close> holds for \<open>null\<close> and for the empty string.\<close>

definition selected :: "app \<Rightarrow> string option" where
  "selected s = (case selectedId s of None \<Rightarrow> None | Some i \<Rightarrow> if i = [] then None else Some i)"

definition setHeightProp :: "real \<Rightarrow> building \<Rightarrow> building" where
  "setHeightProp h f = f\<lparr> properties := (properties f)\<lparr> prop_height := Some h \<rparr> \<rparr>"

text \<open>\<open>feat.properties.id = feat.properties.id ?? cryptoRandomId()\<close>, with \<open>rid\<close> for
  the random id.\<close>

definition withId :: "string \<Rightarrow> building \<Rightarrow> building" where
  "withId rid feat =
     feat\<lparr> properties := (properties feat)
             \<lparr> prop_id := Some (case prop_id (properties feat) of
                                  Some j \<Rightarrow> j | None \<Rightarrow> rid) \<rparr> \<rparr>"

text \<open>
  \<open>appendBuildingFeature\<close>. The source, storage and the count are written inside a
  \<open>try\<close>; the call of \<open>addMeshForFeature\<close> comes after it and is not guarded, so an
  exception of the mesh construction leaves \<open>appendBuildingFeature\<close> with the store
  written and before the deferred callback is requested.
\<close>

definition appendBuildingFeature ::
  "host \<Rightarrow> string \<Rightarrow> real \<Rightarrow> building \<Rightarrow> bool \<Rightarrow> app \<Rightarrow> app outcome" where
  "appendBuildingFeature H rid now feat animateHeight s =
     (if \<not> map_current s then Returned s
      else case user_buildings s of
        None \<Rightarrow> Returned s
      | Some current \<Rightarrow>
          (let i = (case prop_id (properties feat) of Some j \<Rightarrow> j | None \<Rightarrow> rid);
               feat1 = withId rid feat;
               target = (case prop_height (properties feat1) of
                           Some h \<Rightarrow> h | None \<Rightarrow> buildingHeight s);
               feat2 = (if animateHeight then setHeightProp 0 feat1 else feat1);
               newData = current @ [feat2];
               s1 = s\<lparr> user_buildings := Some newData,
                       stored_buildings := Some newData,
                       buildingsCount := length newData \<rparr>
           in case threeManagerRef s1 of
                None \<Rightarrow> Returned s1
              | Some w \<Rightarrow>
                  (case addMeshForFeature H rid now feat2 w of
                     Threw w1 \<Rightarrow> Threw (s1\<lparr> threeManagerRef := Some w1 \<rparr>)
                   | Returned w1 \<Rightarrow>
                       (let s2 = s1\<lparr> threeManagerRef := Some w1 \<rparr>
                        in if animateHeight
                           then Returned
                                  (s2\<lparr> timeouts := timeouts s2 @
                                         [\<lparr> due = now + 450, forId = i,
                                            targetHeight = target \<rparr>] \<rparr>)
                           else Returned s2))))"

text \<open>The deferred callback, run at time \<open>now\<close>: it starts the height animation and
  then writes the target height into the stored feature.\<close>

definition heightTimeout :: "real \<Rightarrow> deferred \<Rightarrow> app \<Rightarrow> app" where
  "heightTimeout now d s =
     (let s1 = s\<lparr> threeManagerRef :=
                    map_option (updateHeight (forId d) (targetHeight d) now) (threeManagerRef s) \<rparr>
      in if \<not> map_current s1 then s1
         else case user_buildings s1 of
           None \<Rightarrow> s1
         | Some cur \<Rightarrow>
             (case findIndex (hasId (forId d)) cur of
                None \<Rightarrow> s1
              | Some idx \<Rightarrow>
                  (let cur1 = cur[idx := setHeightProp (targetHeight d) (cur ! idx)]
                   in s1\<lparr> user_buildings := Some cur1, stored_buildings := Some cur1 \<rparr>)))"

text \<open>The timer of the browser at time \<open>now\<close>: every callback that is due runs, in the
  order of its request.\<close>

definition runTimeouts :: "real \<Rightarrow> app \<Rightarrow> app" where
  "runTimeouts now s =
     fold (heightTimeout now) (filter (\<lambda>d. due d \<le> now) (timeouts s))
          (s\<lparr> timeouts := filter (\<lambda>d. \<not> due d \<le> now) (timeouts s) \<rparr>)"

definition appendTreeFeature :: "string \<Rightarrow> tree \<Rightarrow> app \<Rightarrow> app" where
  "appendTreeFeature rid feat s =
     (if \<not> map_current s then s
      else case user_trees s of
        None \<Rightarrow> s
      | Some current \<Rightarrow>
          (let i = (case tree_id feat of Some j \<Rightarrow> j | None \<Rightarrow> rid);
               newData = current @ [feat\<lparr> tree_id := Some i \<rparr>]
           in s\<lparr> user_trees := Some newData,
                 stored_trees := Some newData,
                 treesCount := length newData \<rparr>))"

text \<open>The feature object the placing handlers build around the ring \<open>coords\<close>.\<close>

definition newBuildingFeature :: "string \<Rightarrow> ring \<Rightarrow> app \<Rightarrow> building" where
  "newBuildingFeature rid coords s =
     \<lparr> properties =
         \<lparr> prop_id = Some rid,
           prop_height = Some (buildingHeight s),
           prop_base = Some 0,
           prop_color = Some (buildingColor s),
           prop_rotation = Some 0,
           prop_content = Some (shapeName (shape s)) \<rparr>,
       polygon = coords \<rparr>"

text \<open>The button \<open>Add at center\<close>; \<open>c\<close> is the centre of the map. The circle is asked
  for with 32 segments, so none of its entries is undefined.\<close>

definition addAtCenter :: "host \<Rightarrow> string \<Rightarrow> real \<Rightarrow> position \<Rightarrow> app \<Rightarrow> app outcome" where
  "addAtCenter H rid now c s =
     (if \<not> map_current s then Returned (s\<lparr> error := Some ''Map not ready'' \<rparr>)
      else case placingType s of
        PlaceBuilding \<Rightarrow>
          (let coords =
                 (if shape s = Rectangle
                  then rectanglePolygonAround (fst c) (snd c) (buildingWidth s) (buildingDepth s) 0
                  else List.map_filter (\<lambda>p. p)
                         (circlePolygonAround (fst c) (snd c) (circleRadius s) 32));
               feat = newBuildingFeature rid coords s
           in appendBuildingFeature H rid now feat True s)
      | PlaceTree \<Rightarrow>
          Returned
            (appendTreeFeature rid
               \<lparr> tree_id = Some rid, tree_size = Some (treeSize s), point = c \<rparr> s))"

definition deleteSelected :: "app \<Rightarrow> app" where
  "deleteSelected s =
     (if \<not> map_current s then s
      else case selected s of
        None \<Rightarrow> s
      | Some sel \<Rightarrow>
          (case (case user_buildings s of
                   None \<Rightarrow> None
                 | Some cur \<Rightarrow> map_option (Pair cur) (findIndex (hasId sel) cur)) of
             Some (cur, idx) \<Rightarrow>
               s\<lparr> threeManagerRef := map_option (removeById sel) (threeManagerRef s),
                  user_buildings := Some (splice1 idx cur),
                  stored_buildings := Some (splice1 idx cur),
                  buildingsCount := length (splice1 idx cur),
                  selectedId := None \<rparr>
           | None \<Rightarrow>
               (case (case user_trees s of
                        None \<Rightarrow> None
                      | Some cur \<Rightarrow> map_option (Pair cur) (findIndex (treeHasId sel) cur)) of
                  Some (cur, idx) \<Rightarrow>
                    s\<lparr> user_trees := Some (splice1 idx cur),
                       stored_trees := Some (splice1 idx cur),
                       treesCount := length (splice1 idx cur),
                       selectedId := None \<rparr>
                | None \<Rightarrow> s)))"

text \<open>The button \<open>Clear Buildings\<close>: \<open>meshes.forEach((m, id) => removeById(id))\<close>
  visits every key, each call taking out at most its own entry.\<close>

definition clearBuildings :: "app \<Rightarrow> app" where
  "clearBuildings s =
     (if \<not> map_current s then s
      else case user_buildings s of
        None \<Rightarrow> s
      | Some cur \<Rightarrow>
          s\<lparr> user_buildings := Some [],
             stored_buildings := Some [],
             buildingsCount := 0,
             threeManagerRef :=
               map_option (\<lambda>w. fold removeById (map fst (meshes w)) w) (threeManagerRef s) \<rparr>)"

text \<open>
  \<open>importGeoJSON\<close> for the buildings source, from the point where the file has been
  read and parsed into \<open>parsed\<close>. \<open>rid k\<close> and \<open>now k\<close> are the random id and the clock
  reading of the call of \<open>addMeshForFeature\<close> for feature number \<open>k\<close>; each of these
  calls has a \<open>try\<close> of its own, which drops an exception.
\<close>

definition importGeoJSON ::
  "host \<Rightarrow> (nat \<Rightarrow> string) \<Rightarrow> (nat \<Rightarrow> real) \<Rightarrow> building list \<Rightarrow> app \<Rightarrow> app" where
  "importGeoJSON H rid now parsed s =
     (if \<not> map_current s then s
      else case user_buildings s of
        None \<Rightarrow> s\<lparr> error := Some ''Invalid GeoJSON'' \<rparr>
      | Some cur \<Rightarrow>
          (let s1 = s\<lparr> user_buildings := Some parsed,
                       stored_buildings := Some parsed,
                       buildingsCount := length parsed,
                       error := None \<rparr>
           in s1\<lparr> threeManagerRef :=
                    map_option
                      (fold (\<lambda>(k, f) w. stateOf (addMeshForFeature H (rid k) (now k) f w))
                            (enumerate 0 parsed))
                      (threeManagerRef s1) \<rparr>))"

text \<open>
  \<open>rotateSelectedBuilding\<close>. The result is \<open>None\<close> where the script goes on with
  \<open>NaN\<close> or an infinity, which the model does not follow: the ring of the selected
  feature has fewer than two positions. \<open>bboxMeters\<close> is the estimate of the width and
  the depth of a ring in metres, from its bounding box and the latitude of its centroid.
  Writing the source and storage, removing the mesh and adding the new one are inside one
  \<open>try\<close> that drops an exception.
\<close>

definition finiteBox :: "bbox \<Rightarrow> (real \<times> real \<times> real \<times> real) option" where
  "finiteBox b =
     (case minLng b of None \<Rightarrow> None | Some x0 \<Rightarrow>
      case minLat b of None \<Rightarrow> None | Some y0 \<Rightarrow>
      case maxLng b of None \<Rightarrow> None | Some x1 \<Rightarrow>
      case maxLat b of None \<Rightarrow> None | Some y1 \<Rightarrow> Some (x0, y0, x1, y1))"

definition bboxMeters :: "ring \<Rightarrow> (real \<times> real) option" where
  "bboxMeters poly =
     (case polygonCentroid poly of
        None \<Rightarrow> None
      | Some centroid \<Rightarrow>
          (case finiteBox (polygonBBox poly) of
             None \<Rightarrow> None
           | Some (x0, y0, x1, y1) \<Rightarrow>
               Some (\<bar>(x1 - x0) * (111320 * cos ((snd centroid * pi) / 180))\<bar>,
                     \<bar>(y1 - y0) * 111320\<bar>)))"

definition rotatedFeature :: "real \<Rightarrow> real \<Rightarrow> real \<Rightarrow> building \<Rightarrow> building option" where
  "rotatedFeature bw bd deltaDeg feat =
     (let poly = polygon feat;
          oldRotation = (case prop_rotation (properties feat) of Some r \<Rightarrow> r | None \<Rightarrow> 0);
          newRotation = jsRem (oldRotation + deltaDeg) 360
      in case polygonCentroid poly of
           None \<Rightarrow> None
         | Some centroid \<Rightarrow>
             (case bboxMeters poly of
                None \<Rightarrow> None
              | Some (widthMeters, depthMeters) \<Rightarrow>
                  (let newPoly = rectanglePolygonAround (fst centroid) (snd centroid)
                                   (jsOr widthMeters bw) (jsOr depthMeters bd) newRotation
                   in Some (feat\<lparr> polygon := newPoly,
                                  properties := (properties feat)
                                                  \<lparr> prop_rotation := Some newRotation \<rparr> \<rparr>))))"

definition rotateSelectedBuilding :: "host \<Rightarrow> string \<Rightarrow> real \<Rightarrow> real \<Rightarrow> app \<Rightarrow> app option" where
  "rotateSelectedBuilding H rid now deltaDeg s =
     (if \<not> map_current s then Some s
      else case selected s of
        None \<Rightarrow> Some s
      | Some sel \<Rightarrow>
          (case user_buildings s of
             None \<Rightarrow> Some s
           | Some cur \<Rightarrow>
               (case findIndex (hasId sel) cur of
                  None \<Rightarrow> Some s
                | Some idx \<Rightarrow>
                    (case rotatedFeature (buildingWidth s) (buildingDepth s) deltaDeg (cur ! idx) of
                       None \<Rightarrow> None
                     | Some feat1 \<Rightarrow>
                         Some (s\<lparr> user_buildings := Some (cur[idx := feat1]),
                                  stored_buildings := Some (cur[idx := feat1]),
                                  threeManagerRef :=
                                    map_option
                                      (\<lambda>w. stateOf (addMeshForFeature H rid now feat1
                                                       (removeById sel w)))
                                      (threeManagerRef s) \<rparr>)))))"

text \<open>\<open>{ ...old, ...updates }\<close>: a property of \<open>updates\<close> that is present wins.\<close>

definition orElse :: "'a option \<Rightarrow> 'a option \<Rightarrow> 'a option" where
  "orElse u v = (case u of Some x \<Rightarrow> Some x | None \<Rightarrow> v)"

definition mergeProps :: "props \<Rightarrow> props \<Rightarrow> props" where
  "mergeProps old u =
     \<lparr> prop_id = orElse (prop_id u) (prop_id old),
       prop_height = orElse (prop_height u) (prop_height old),
       prop_base = orElse (prop_base u) (prop_base old),
       prop_color = orElse (prop_color u) (prop_color old),
       prop_rotation = orElse (prop_rotation u) (prop_rotation old),
       prop_content = orElse (prop_content u) (prop_content old) \<rparr>"

definition recolour :: "string \<Rightarrow> string option \<Rightarrow> world \<Rightarrow> world" where
  "recolour sel c w =
     (case map_of (meshes w) sel of
        None \<Rightarrow> w
      | Some r \<Rightarrow>
          (case c of
             None \<Rightarrow> w
           | Some col \<Rightarrow>
               if col = [] then w
               else w\<lparr> heap := (heap w)[r := (heap w ! r)\<lparr> materialColor := col \<rparr>] \<rparr>))"

definition updateSelectedBuildingProps :: "real \<Rightarrow> props \<Rightarrow> app \<Rightarrow> app" where
  "updateSelectedBuildingProps now updates s =
     (if \<not> map_current s then s
      else case selected s of
        None \<Rightarrow> s
      | Some sel \<Rightarrow>
          (case user_buildings s of
             None \<Rightarrow> s
           | Some cur \<Rightarrow>
               (case findIndex (hasId sel) cur of
                  None \<Rightarrow> s
                | Some idx \<Rightarrow>
                    (let f = cur ! idx;
                         cur1 = cur[idx := f\<lparr> properties := mergeProps (properties f) updates \<rparr>];
                         s1 = s\<lparr> user_buildings := Some cur1, stored_buildings := Some cur1 \<rparr>
                     in case prop_height updates of
                          Some targetH \<Rightarrow>
                            s1\<lparr> threeManagerRef :=
                                  map_option (updateHeight sel targetH now) (threeManagerRef s1) \<rparr>
                        | None \<Rightarrow>
                            s1\<lparr> threeManagerRef :=
                                  map_option (recolour sel (prop_color updates))
                                    (threeManagerRef s1) \<rparr>))))"

text \<open>An animation frame and a timer run, seen from the component.\<close>

definition frameTick :: "real \<Rightarrow> app \<Rightarrow> app" where
  "frameTick now s = s\<lparr> threeManagerRef := map_option (animationFrame now) (threeManagerRef s) \<rparr>"

text \<open>The extent of a mesh along the extrusion axis: the depth its geometry was built
  with, times its scale.\<close>

definition meshHeight :: "mesh \<Rightarrow> real" where
  "meshHeight m = extrudeDepth m * scale_z m"

fun isHeight :: "anim \<Rightarrow> bool" where
  "isHeight (Rise m start) = False"
| "isHeight (Height m start from to) = True"

section \<open>Concrete states\<close>

text \<open>
  A host whose planar coordinates are the geographic ones, which throws for \<open>NaN\<close> and
  for a latitude outside \<open>[-90, 90]\<close>, and which offers no scale factor; two buildings on
  a square ring, and the states the component reaches with them:
  the manager after \<open>onAdd\<close>; the manager holding the mesh of building \<open>a\<close> once its
  rise animation has finished; the component after the map has loaded, with nothing
  stored and with building \<open>a\<close> stored and selected.
\<close>

definition flatHost :: host where
  "flatHost =
     \<lparr> fromLngLat = (\<lambda>p. case p of
                           None \<Rightarrow> None
                         | Some c \<Rightarrow> if snd c < - 90 \<or> 90 < snd c then None else Some c),
       meterInMercatorCoordinateUnits = (\<lambda>c. Missing) \<rparr>"

definition squareRing :: ring where
  "squareRing = [(0, 0), (2, 0), (2, 2), (0, 2), (0, 0)]"

definition featA :: building where
  "featA = \<lparr> properties = \<lparr> prop_id = Some ''a'', prop_height = Some 10, prop_base = Some 0,
                             prop_color = Some ''#c44e3b'', prop_rotation = Some 0,
                             prop_content = None \<rparr>,
             polygon = squareRing \<rparr>"

definition featB :: building where
  "featB = \<lparr> properties = \<lparr> prop_id = Some ''b'', prop_height = Some 20, prop_base = Some 0,
                             prop_color = Some ''#c44e3b'', prop_rotation = Some 0,
                             prop_content = None \<rparr>,
             polygon = squareRing \<rparr>"

definition readyWorld :: world where
  "readyWorld = onAdd createThreeLayerManager"

definition worldA :: world where
  "worldA = animationFrame 700 (stateOf (addMeshForFeature flatHost ''r'' 0 featA readyWorld))"

definition emptyApp :: app where
  "emptyApp =
     \<lparr> map_current = True, user_buildings = Some [], user_trees = Some [],
       stored_buildings = None, stored_trees = None, buildingsCount = 0, treesCount = 0,
       error = None, selectedId = None, threeManagerRef = Some readyWorld, timeouts = [],
       placingType = PlaceBuilding, shape = Rectangle, buildingColor = ''#c44e3b'',
       buildingWidth = 12, buildingDepth = 12, buildingHeight = 12, circleRadius = 8,
       treeSize = 6 \<rparr>"

definition appA :: app where
  "appA = emptyApp\<lparr> user_buildings := Some [featA], stored_buildings := Some [featA],
                    buildingsCount := 1, selectedId := Some ''a'',
                    threeManagerRef := Some worldA \<rparr>"

text \<open>Height updates of building \<open>a\<close> at the manager: to 30 at time 1000, a frame at
  1250, and a second update to 60 at that moment, while the first is still running.\<close>

definition worldH :: world where
  "worldH = updateHeight ''a'' 30 1000 worldA"

definition worldHH :: world where
  "worldHH = updateHeight ''a'' 60 1250 (animationFrame 1250 worldH)"

text \<open>Height updates of the selected building \<open>a\<close> through the panel: to 30 at time
  1000 with the frame at 1500 that ends the animation, then to 60 at time 2000 with the
  frame at 2500.\<close>

definition appA30 :: app where
  "appA30 = frameTick 1500
     (updateSelectedBuildingProps 1000
        \<lparr> prop_id = None, prop_height = Some 30, prop_base = None, prop_color = None,
          prop_rotation = None, prop_content = None \<rparr> appA)"

definition appA60 :: app where
  "appA60 = frameTick 2500
     (updateSelectedBuildingProps 2000
        \<lparr> prop_id = None, prop_height = Some 60, prop_base = None, prop_color = None,
          prop_rotation = None, prop_content = None \<rparr> appA30)"

text \<open>A building on a triangle, and one whose ring is not closed.\<close>

definition featT :: building where
  "featT = \<lparr> properties = \<lparr> prop_id = Some ''a'', prop_height = Some 10, prop_base = Some 0,
                             prop_color = Some ''#c44e3b'', prop_rotation = Some 0,
                             prop_content = None \<rparr>,
             polygon = [(0, 0), (3, 0), (0, 3), (0, 0)] \<rparr>"


text \<open>The ids and heights of the buildings source, and the ids the index of the
  manager holds.\<close>

definition buildingIds :: "app \<Rightarrow> string option list" where
  "buildingIds s =
     (case user_buildings s of None \<Rightarrow> [] | Some fs \<Rightarrow> map (\<lambda>f. prop_id (properties f)) fs)"

definition buildingHeights :: "app \<Rightarrow> real option list" where
  "buildingHeights s =
     (case user_buildings s of None \<Rightarrow> [] | Some fs \<Rightarrow> map (\<lambda>f. prop_height (properties f)) fs)"

definition buildingRotations :: "app \<Rightarrow> real option list" where
  "buildingRotations s =
     (case user_buildings s of None \<Rightarrow> [] | Some fs \<Rightarrow> map (\<lambda>f. prop_rotation (properties f)) fs)"

definition meshIds :: "app \<Rightarrow> string list" where
  "meshIds s = (case threeManagerRef s of None \<Rightarrow> [] | Some w \<Rightarrow> map fst (meshes w))"

text \<open>What the component's manager holds: the queue of requested animation callbacks,
  the scale and the height of every mesh object by reference, and the meshes in the
  scene.\<close>

definition pendingFrames :: "app \<Rightarrow> anim list" where
  "pendingFrames s = (case threeManagerRef s of None \<Rightarrow> [] | Some w \<Rightarrow> frames w)"

definition meshScales :: "app \<Rightarrow> real list" where
  "meshScales s = (case threeManagerRef s of None \<Rightarrow> [] | Some w \<Rightarrow> map scale_z (heap w))"

definition meshHeights :: "app \<Rightarrow> real list" where
  "meshHeights s = (case threeManagerRef s of None \<Rightarrow> [] | Some w \<Rightarrow> map meshHeight (heap w))"

definition sceneMeshes :: "app \<Rightarrow> mesh_ref list" where
  "sceneMeshes s =
     (case threeManagerRef s of
        None \<Rightarrow> []
      | Some w \<Rightarrow> (case scene w of None \<Rightarrow> [] | Some children \<Rightarrow> children))"

text \<open>The selected building \<open>a\<close> is set to height 30 at time 1000 and deleted before
  the next frame.\<close>

definition appH :: app where
  "appH = updateSelectedBuildingProps 1000
     \<lparr> prop_id = None, prop_height = Some 30, prop_base = None, prop_color = None,
       prop_rotation = None, prop_content = None \<rparr> appA"

definition appD :: app where
  "appD = deleteSelected appH"

text \<open>A file holding only building \<open>b\<close> is imported into the component that holds
  building \<open>a\<close>.\<close>

definition appImported :: app where
  "appImported = importGeoJSON flatHost (\<lambda>k. ''r'') (\<lambda>k. 3000) [featB] appA"

text \<open>The manager after the first height update of building \<open>a\<close> has run to its end,
  and after the second.\<close>

definition worldA30 :: world where
  "worldA30 = animationFrame 1500 (updateHeight ''a'' 30 1000 worldA)"

definition worldA60 :: world where
  "worldA60 = animationFrame 2500 (updateHeight ''a'' 60 2000 worldA30)"

text \<open>The height callbacks requested for one mesh.\<close>

definition heightTasksFor :: "mesh_ref \<Rightarrow> anim list \<Rightarrow> anim list" where
  "heightTasksFor m as = filter (\<lambda>a. animMesh a = m \<and> isHeight a) as"

text \<open>
  The bookkeeping of the manager is in order when no id is indexed twice, no mesh is
  indexed under two ids, every indexed reference is a mesh object, and the meshes of the
  scene, if there is a scene, are exactly the indexed ones, each once.
\<close>

definition indexed :: "world \<Rightarrow> mesh_ref set" where
  "indexed w = snd ` set (meshes w)"

definition wellKept :: "world \<Rightarrow> bool" where
  "wellKept w \<longleftrightarrow>
     distinct (map fst (meshes w)) \<and> distinct (map snd (meshes w))
     \<and> (\<forall>r \<in> indexed w. r < length (heap w))
     \<and> (case scene w of None \<Rightarrow> True | Some children \<Rightarrow> distinct children \<and> set children = indexed w)"

text \<open>A building is placed with the button at time 0, the deferred callback runs at
  450, and the frame at 1000 ends both animations.\<close>

definition appPlaced :: app where
  "appPlaced =
     frameTick 1000 (runTimeouts 450 (stateOf (addAtCenter flatHost ''n'' 0 (0, 0) emptyApp)))"

text \<open>
  A building on a square of 10 m by 10 m around longitude 0 and latitude 60, where a
  degree of longitude is half as long as a degree of latitude, stored with rotation 75,
  and the component that holds it, selected.
\<close>

definition square60 :: ring where
  "square60 =
     [(- 1 / 11132, 60 - 1 / 22264), (1 / 11132, 60 - 1 / 22264),
      (1 / 11132, 60 + 1 / 22264), (- 1 / 11132, 60 + 1 / 22264),
      (- 1 / 11132, 60 - 1 / 22264)]"

definition featS :: building where
  "featS = \<lparr> properties = \<lparr> prop_id = Some ''a'', prop_height = Some 10, prop_base = Some 0,
                             prop_color = Some ''#c44e3b'', prop_rotation = Some 75,
                             prop_content = None \<rparr>,
             polygon = square60 \<rparr>"

definition appS :: app where
  "appS = appA\<lparr> user_buildings := Some [featS], stored_buildings := Some [featS] \<rparr>"

definition rotatedRing :: "app option \<Rightarrow> ring" where
  "rotatedRing r =
     (case r of
        None \<Rightarrow> []
      | Some s \<Rightarrow> (case user_buildings s of None \<Rightarrow> [] | Some fs \<Rightarrow> concat (map polygon fs)))"

text \<open>A building whose ring lies at latitude 91, which the host refuses.\<close>

definition featNorth :: building where
  "featNorth = \<lparr> properties = \<lparr> prop_id = Some ''u'', prop_height = Some 10, prop_base = Some 0,
                                 prop_color = Some ''#c44e3b'', prop_rotation = Some 0,
                                 prop_content = None \<rparr>,
                 polygon = [(0, 91), (1, 91), (1, 92), (0, 91)] \<rparr>"

section \<open>Properties\<close>

lemmas world_defs =
  readyWorld_def onAdd_def createThreeLayerManager_def addMeshForFeature_def
  buildMeshFromPolygon_def polygonCentroidCoords_def polygonCentroid_def flatHost_def
  featA_def featB_def squareRing_def jsOr_def sceneAdd_def sceneRemove_def mapSet_def
  mapDelete_def animationFrame_def runAnim_def animProgress_def easeOutCubic_def
  setScale_def removeById_def updateHeight_def identity4_def worldA_def worldH_def
  worldHH_def

lemmas app_defs =
  emptyApp_def appA_def appA30_def appA60_def frameTick_def selected_def findIndex_def
  hasId_def mergeProps_def orElse_def setHeightProp_def splice1_def

subsection \<open>Footprints\<close>

lemma pushFirst_length: "length (pushFirst cs) = Suc (length cs)"
  by (simp add: pushFirst_def)

lemma pushFirst_closed: "hd (pushFirst cs) = last (pushFirst cs)"
  by (cases cs) (simp_all add: pushFirst_def)

text \<open>
  C5, as the specification states it: a circle footprint with fewer than three segments
  fails with \<open>InvalidGeometry\<close>. The script has no such check, and nothing in
  \<open>circlePolygonAround\<close> throws: asked for two segments around the origin with radius
  one metre, it returns the three entries below.
\<close>

theorem circle_two_segments_returns:
  "circlePolygonAround 0 0 1 2 =
     [Some (1 / 111320, 0), Some (- 1 / 111320, 0), Some (1 / 111320, 0)]"
  by (simp add: circlePolygonAround_def pushFirst_def circleLoop_def circlePoint_def
      metersToLngDegrees_def metersToLatDegrees_def upt_rec)

text \<open>
  C5, amended: for every centre, radius and segment count below three the circle
  footprint returns an array, one entry for each run of the loop and one more for the
  closing entry, whose first and last entries are the same.
\<close>

theorem circle_few_segments:
  "segments < 3 \<Longrightarrow>
     length (circlePolygonAround lng lat radiusMeters segments) = nat \<lceil>segments\<rceil> + 1
   \<and> hd (circlePolygonAround lng lat radiusMeters segments)
       = last (circlePolygonAround lng lat radiusMeters segments)"
  by (simp add: circlePolygonAround_def pushFirst_length pushFirst_closed circleLoop_def)

theorem circle_few_segments_witness:
  "(2::real) < 3 \<and> length (circlePolygonAround 0 0 1 2) = 3
   \<and> hd (circlePolygonAround 0 0 1 2) = last (circlePolygonAround 0 0 1 2)"
  using circle_few_segments [of 2 0 0 1] by simp

subsection \<open>The render callback\<close>

text \<open>
  C8: on a render callback of a layer that has been set up (the host calls \<open>onAdd\<close>
  before the first frame), the camera's projection becomes the matrix passed for this
  frame, whatever it was before; the overlay is rendered with it, and the last thing the
  callback does is to ask the host for a repaint. It requests no animation frame of its
  own: the queue of requested callbacks is as before.
\<close>

theorem render_uses_frame_matrix:
  assumes "renderer w" and "scene w = Some children" and "camera w = Some previous"
    and "clock w" and "length matrix = 16"
  shows "camera (render matrix t w) = Some matrix
       \<and> calls (render matrix t w) = calls w @ [RendererRender children matrix, TriggerRepaint]
       \<and> frames (render matrix t w) = frames w"
  using assms by (simp add: render_def fromArray_def Let_def)

theorem render_uses_frame_matrix_witness:
  "renderer readyWorld \<and> scene readyWorld = Some [] \<and> camera readyWorld = Some identity4
   \<and> clock readyWorld \<and> length (replicate 16 (2::real)) = 16
   \<and> camera (render (replicate 16 2) 0 readyWorld) = Some (replicate 16 2)
   \<and> calls (render (replicate 16 2) 0 readyWorld)
       = [RendererRender [] (replicate 16 2), TriggerRepaint]"
  using render_uses_frame_matrix [of readyWorld "[]" identity4 "replicate 16 2" 0]
  by (simp add: readyWorld_def onAdd_def createThreeLayerManager_def)

subsection \<open>Rotating the selected building\<close>

lemma findIndexFrom_Some:
  "findIndexFrom k P xs = Some i \<Longrightarrow> k \<le> i \<and> i - k < length xs \<and> P (xs ! (i - k))"
proof (induction xs arbitrary: k)
  case Nil
  then show ?case by simp
next
  case (Cons x xs)
  show ?case
  proof (cases "P x")
    case True
    with Cons.prems show ?thesis by simp
  next
    case False
    with Cons.prems have "findIndexFrom (Suc k) P xs = Some i" by simp
    from Cons.IH [OF this] show ?thesis
      by (auto simp: nth_Cons' Suc_diff_Suc)
  qed
qed

lemma findIndex_Some: "findIndex P xs = Some i \<Longrightarrow> i < length xs \<and> P (xs ! i)"
  using findIndexFrom_Some [of 0 P xs i] by (simp add: findIndex_def)

lemma fold_bbox:
  "fold (\<lambda>c b. \<lparr> minLng = lowerTo (fst c) (minLng b),
                 minLat = lowerTo (snd c) (minLat b),
                 maxLng = raiseTo (fst c) (maxLng b),
                 maxLat = raiseTo (snd c) (maxLat b) \<rparr>)
        cs \<lparr> minLng = Some x0, minLat = Some y0, maxLng = Some x1, maxLat = Some y1 \<rparr>
   = \<lparr> minLng = Some (fold min (map fst cs) x0), minLat = Some (fold min (map snd cs) y0),
       maxLng = Some (fold max (map fst cs) x1), maxLat = Some (fold max (map snd cs) y1) \<rparr>"
  by (induction cs arbitrary: x0 y0 x1 y1) (simp_all add: lowerTo_def raiseTo_def min_def max_def)

lemma polygonBBox_Cons:
  "finiteBox (polygonBBox (c # cs)) =
     Some (Min (fst ` set (c # cs)), Min (snd ` set (c # cs)),
           Max (fst ` set (c # cs)), Max (snd ` set (c # cs)))"
proof -
  have a: "Min (fst ` set (c # cs)) = fold min (map fst cs) (fst c)"
    using Min.set_eq_fold [of "fst c" "map fst cs"] by simp
  have b: "Min (snd ` set (c # cs)) = fold min (map snd cs) (snd c)"
    using Min.set_eq_fold [of "snd c" "map snd cs"] by simp
  have c: "Max (fst ` set (c # cs)) = fold max (map fst cs) (fst c)"
    using Max.set_eq_fold [of "fst c" "map fst cs"] by simp
  have d: "Max (snd ` set (c # cs)) = fold max (map snd cs) (snd c)"
    using Max.set_eq_fold [of "snd c" "map snd cs"] by simp
  have "polygonBBox (c # cs) =
     fold (\<lambda>c b. \<lparr> minLng = lowerTo (fst c) (minLng b),
                   minLat = lowerTo (snd c) (minLat b),
                   maxLng = raiseTo (fst c) (maxLng b),
                   maxLat = raiseTo (snd c) (maxLat b) \<rparr>)
          cs \<lparr> minLng = Some (fst c), minLat = Some (snd c),
               maxLng = Some (fst c), maxLat = Some (snd c) \<rparr>"
    by (simp add: polygonBBox_def lowerTo_def raiseTo_def)
  then have "polygonBBox (c # cs) =
     \<lparr> minLng = Some (fold min (map fst cs) (fst c)),
       minLat = Some (fold min (map snd cs) (snd c)),
       maxLng = Some (fold max (map fst cs) (fst c)),
       maxLat = Some (fold max (map snd cs) (snd c)) \<rparr>"
    by (simp only: fold_bbox)
  then show ?thesis
    unfolding a b c d by (simp add: finiteBox_def)
qed

lemma polygonCentroid_nonempty: "polygonCentroid P = Some c \<Longrightarrow> P \<noteq> []"
  by (auto simp: polygonCentroid_def)

lemma rectangle_length: "length (rectanglePolygonAround lng lat w d r) = 5"
  by (simp add: rectanglePolygonAround_def Let_def)

lemma rectangle_closed:
  "hd (rectanglePolygonAround lng lat w d r) = last (rectanglePolygonAround lng lat w d r)"
  by (simp add: rectanglePolygonAround_def Let_def)

lemma bboxMeters_eq:
  assumes "polygonCentroid P = Some (cx, cy)"
  shows "bboxMeters P =
           Some (\<bar>(Max (fst ` set P) - Min (fst ` set P)) * (111320 * cos ((cy * pi) / 180))\<bar>,
                 \<bar>(Max (snd ` set P) - Min (snd ` set P)) * 111320\<bar>)"
proof -
  from assms obtain c cs where P: "P = c # cs"
    using polygonCentroid_nonempty by (cases P) auto
  show ?thesis
    using assms polygonBBox_Cons [of c cs] by (simp add: bboxMeters_def P)
qed

lemma rectangle_corners:
  "rectanglePolygonAround lng lat w d r =
     [(lng + ((- (w / 2)) / (111320 * cos ((lat * pi) / 180)) * cos ((r * pi) / 180)
              - ((- (d / 2)) / 111320) * sin ((r * pi) / 180)),
       lat + ((- (w / 2)) / (111320 * cos ((lat * pi) / 180)) * sin ((r * pi) / 180)
              + ((- (d / 2)) / 111320) * cos ((r * pi) / 180))),
      (lng + ((w / 2) / (111320 * cos ((lat * pi) / 180)) * cos ((r * pi) / 180)
              - ((- (d / 2)) / 111320) * sin ((r * pi) / 180)),
       lat + ((w / 2) / (111320 * cos ((lat * pi) / 180)) * sin ((r * pi) / 180)
              + ((- (d / 2)) / 111320) * cos ((r * pi) / 180))),
      (lng + ((w / 2) / (111320 * cos ((lat * pi) / 180)) * cos ((r * pi) / 180)
              - ((d / 2) / 111320) * sin ((r * pi) / 180)),
       lat + ((w / 2) / (111320 * cos ((lat * pi) / 180)) * sin ((r * pi) / 180)
              + ((d / 2) / 111320) * cos ((r * pi) / 180))),
      (lng + ((- (w / 2)) / (111320 * cos ((lat * pi) / 180)) * cos ((r * pi) / 180)
              - ((d / 2) / 111320) * sin ((r * pi) / 180)),
       lat + ((- (w / 2)) / (111320 * cos ((lat * pi) / 180)) * sin ((r * pi) / 180)
              + ((d / 2) / 111320) * cos ((r * pi) / 180))),
      (lng + ((- (w / 2)) / (111320 * cos ((lat * pi) / 180)) * cos ((r * pi) / 180)
              - ((- (d / 2)) / 111320) * sin ((r * pi) / 180)),
       lat + ((- (w / 2)) / (111320 * cos ((lat * pi) / 180)) * sin ((r * pi) / 180)
              + ((- (d / 2)) / 111320) * cos ((r * pi) / 180)))]"
  by (simp add: rectanglePolygonAround_def rectangleCorner_def metersToLngDegrees_def
      metersToLatDegrees_def Let_def)

lemma rotatedFeature_eq:
  assumes "polygonCentroid (polygon feat) = Some (cx, cy)"
  shows "rotatedFeature bw bd deltaDeg feat =
     Some (feat\<lparr> polygon :=
                   rectanglePolygonAround cx cy
                     (jsOr \<bar>(Max (fst ` set (polygon feat)) - Min (fst ` set (polygon feat)))
                            * (111320 * cos ((cy * pi) / 180))\<bar> bw)
                     (jsOr \<bar>(Max (snd ` set (polygon feat)) - Min (snd ` set (polygon feat)))
                            * 111320\<bar> bd)
                     (jsRem ((case prop_rotation (properties feat) of Some r \<Rightarrow> r | None \<Rightarrow> 0)
                             + deltaDeg) 360),
                 properties := (properties feat)
                   \<lparr> prop_rotation :=
                       Some (jsRem ((case prop_rotation (properties feat) of
                                       Some r \<Rightarrow> r | None \<Rightarrow> 0) + deltaDeg) 360) \<rparr> \<rparr>)"
  using assms by (simp add: rotatedFeature_def bboxMeters_eq [OF assms] Let_def)

lemma square60_centroid: "polygonCentroid square60 = Some (0, 60)"
  by (simp add: polygonCentroid_def square60_def)

lemma square60_meters: "bboxMeters square60 = Some (10, 10)"
  by (simp add: bboxMeters_def polygonCentroid_def polygonBBox_def lowerTo_def raiseTo_def
      finiteBox_def square60_def cos_60)

lemma rectangle60:
  "rectanglePolygonAround 0 60 10 10 90 =
     [(1 / 22264, 60 - 1 / 11132), (1 / 22264, 60 + 1 / 11132),
      (- 1 / 22264, 60 + 1 / 11132), (- 1 / 22264, 60 - 1 / 11132),
      (1 / 22264, 60 - 1 / 11132)]"
  by (simp add: rectangle_corners cos_60)

lemma rectangle60_meters: "bboxMeters (rectanglePolygonAround 0 60 10 10 90) = Some (5, 20)"
  unfolding rectangle60
  by (simp add: bboxMeters_def polygonCentroid_def polygonBBox_def lowerTo_def raiseTo_def
      finiteBox_def cos_60)

lemma featS_rotated:
  "rotatedFeature 12 12 15 featS =
     Some (featS\<lparr> polygon := rectanglePolygonAround 0 60 10 10 90,
                  properties := (properties featS)\<lparr> prop_rotation := Some 90 \<rparr> \<rparr>)"
proof -
  have c: "polygonCentroid (polygon featS) = Some (0, 60)"
    by (simp add: featS_def square60_centroid)
  have m: "bboxMeters (polygon featS) = Some (10, 10)"
    by (simp add: featS_def square60_meters)
  have r: "jsRem ((case prop_rotation (properties featS) of Some r \<Rightarrow> r | None \<Rightarrow> 0) + 15) 360
             = 90"
    by (simp add: featS_def jsRem_def jsTrunc_def)
  show ?thesis
    by (simp add: rotatedFeature_def c m r jsOr_def)
qed

text \<open>
  What rotating does, for a selected building whose ring \<open>P\<close> has a centroid: the ring
  is replaced by the closed five-point ring that \<open>rectanglePolygonAround\<close> builds around
  the centroid from the width \<open>W\<close> and the depth \<open>D\<close>, the extents of the bounding box of
  \<open>P\<close> in metres (the width and the depth of the panel where an extent is zero), and
  the new rotation; the feature is written to the source and to storage and its mesh is
  removed and built again. Lemma \<open>rectangle_corners\<close> gives the corners of that ring:
  the offsets of half the width and half the depth are turned into degrees first and
  rotated afterwards.
\<close>

lemma rotate_result:
  assumes "map_current s" and "selected s = Some sel" and "user_buildings s = Some cur"
    and "findIndex (hasId sel) cur = Some idx"
    and "polygon (cur ! idx) = P"
    and "polygonCentroid P = Some (cx, cy)"
    and "newRotation =
           jsRem ((case prop_rotation (properties (cur ! idx)) of Some r \<Rightarrow> r | None \<Rightarrow> 0)
                  + deltaDeg) 360"
    and "W = jsOr \<bar>(Max (fst ` set P) - Min (fst ` set P)) * (111320 * cos ((cy * pi) / 180))\<bar>
                  (buildingWidth s)"
    and "D = jsOr \<bar>(Max (snd ` set P) - Min (snd ` set P)) * 111320\<bar> (buildingDepth s)"
    and "f1 = (cur ! idx)
           \<lparr> polygon := rectanglePolygonAround cx cy W D newRotation,
             properties := (properties (cur ! idx))\<lparr> prop_rotation := Some newRotation \<rparr> \<rparr>"
  shows "rotateSelectedBuilding H rid now deltaDeg s =
           Some (s\<lparr> user_buildings := Some (cur[idx := f1]),
                    stored_buildings := Some (cur[idx := f1]),
                    threeManagerRef :=
                      map_option (\<lambda>w. stateOf (addMeshForFeature H rid now f1 (removeById sel w)))
                        (threeManagerRef s) \<rparr>)"
    and "idx < length cur"
    and "length (polygon f1) = 5"
    and "hd (polygon f1) = last (polygon f1)"
proof -
  have c: "polygonCentroid (polygon (cur ! idx)) = Some (cx, cy)"
    using assms(5,6) by simp
  show i: "idx < length cur"
    using findIndex_Some [OF assms(4)] by simp
  have f: "rotatedFeature (buildingWidth s) (buildingDepth s) deltaDeg (cur ! idx) = Some f1"
    using assms(5) by (simp add: rotatedFeature_eq [OF c] assms(7-10))
  show "rotateSelectedBuilding H rid now deltaDeg s =
             Some (s\<lparr> user_buildings := Some (cur[idx := f1]),
                      stored_buildings := Some (cur[idx := f1]),
                      threeManagerRef :=
                        map_option (\<lambda>w. stateOf (addMeshForFeature H rid now f1 (removeById sel w)))
                          (threeManagerRef s) \<rparr>)"
    using assms(1-4) f by (simp add: rotateSelectedBuilding_def)
  show "length (polygon f1) = 5" "hd (polygon f1) = last (polygon f1)"
    by (simp_all add: assms(10) rectangle_length rectangle_closed)
qed

lemma appS_facts:
  "map_current appS" "selected appS = Some ''a''" "user_buildings appS = Some [featS]"
  "findIndex (hasId ''a'') [featS] = Some 0" "buildingWidth appS = 12" "buildingDepth appS = 12"
  by (simp_all add: appS_def app_defs featS_def)

lemma appS_rotated:
  "rotatedRing (rotateSelectedBuilding flatHost ''r'' 2000 15 appS)
     = rectanglePolygonAround 0 60 10 10 90"
  by (simp add: rotateSelectedBuilding_def appS_facts featS_rotated rotatedRing_def)

text \<open>
  C10, as the specification states it: rotating converts the footprint into a rectangle
  of about the dimensions of the bounding box. \<open>rectanglePolygonAround\<close> rotates the
  offsets after it has turned them from metres into degrees, and a degree of longitude is
  shorter than a degree of latitude away from the equator. Building \<open>a\<close> on a square of
  10 m by 10 m at latitude 60, stored with rotation 75: the button that rotates by 15
  gives the rotation 90 and the ring below, whose extents, by the estimate of the script
  itself, are 5 m from west to east and 20 m from south to north.
\<close>

theorem rotate_quarter_turn_at_60:
  "bboxMeters square60 = Some (10, 10)
   \<and> rotatedRing (Some appS) = square60
   \<and> rotatedRing (rotateSelectedBuilding flatHost ''r'' 2000 15 appS)
       = [(1 / 22264, 60 - 1 / 11132), (1 / 22264, 60 + 1 / 11132),
          (- 1 / 22264, 60 + 1 / 11132), (- 1 / 22264, 60 - 1 / 11132),
          (1 / 22264, 60 - 1 / 11132)]
   \<and> bboxMeters (rotatedRing (rotateSelectedBuilding flatHost ''r'' 2000 15 appS)) = Some (5, 20)"
proof -
  have a: "rotatedRing (Some appS) = square60"
    by (simp add: rotatedRing_def appS_facts featS_def)
  show ?thesis
    unfolding appS_rotated a
    using square60_meters rectangle60 rectangle60_meters by simp
qed

text \<open>
  C4, as the specification states it, asks for a stored rotation in \<open>[0, 360)\<close>, also
  for negative deltas. The script reduces with \<open>%\<close>, whose result has the sign of the
  dividend: the button that rotates by \<open>-15\<close>, pressed for building \<open>a\<close> at rotation
  0, stores the rotation \<open>-15\<close>.
\<close>

theorem rotate_negative_delta:
  "map_option buildingRotations (rotateSelectedBuilding flatHost ''r'' 2000 (- 15) appA)
     = Some [Some (- 15)]"
proof -
  have h6: "polygonCentroid (polygon featA) = Some (1, 1)"
    by (simp add: polygonCentroid_def featA_def squareRing_def)
  have r: "prop_rotation (properties featA) = Some 0"
    by (simp add: featA_def)
  have i: "findIndex (hasId ''a'') [featA] = Some 0"
    by (simp add: findIndex_def hasId_def featA_def)
  have s: "selected appA = Some ''a''" "map_current appA" "user_buildings appA = Some [featA]"
    by (simp_all add: app_defs)
  have m: "jsRem (- 15) 360 = - 15"
    by (simp add: jsRem_def jsTrunc_def ceiling_eq_iff)
  show ?thesis
    by (simp add: rotateSelectedBuilding_def s i rotatedFeature_eq [OF h6] r m
        buildingRotations_def)
qed

text \<open>The other values of that scenario, and the range for sums that are not negative.\<close>

lemma rotation_scenario:
  "jsRem (jsRem (0 + 15) 360 + 15) 360 = 30 \<and> jsRem (30 + 345) 360 = 15"
  by (simp add: jsRem_def jsTrunc_def)

lemma jsRem_360_nonneg: "0 \<le> a \<Longrightarrow> 0 \<le> jsRem a 360 \<and> jsRem a 360 < 360"
proof -
  assume a: "0 \<le> a"
  have f: "jsRem a 360 = a - 360 * of_int \<lfloor>a / 360\<rfloor>"
    using a by (simp add: jsRem_def jsTrunc_def)
  have "of_int \<lfloor>a / 360\<rfloor> \<le> a / 360" by linarith
  moreover have "a / 360 < of_int \<lfloor>a / 360\<rfloor> + 1" by linarith
  ultimately show ?thesis unfolding f by (simp add: field_simps)
qed

subsection \<open>Adding a building\<close>





lemma appA_facts:
  "map_current appA" "selected appA = Some ''a''" "user_buildings appA = Some [featA]"
  "threeManagerRef appA = Some worldA" "findIndex (hasId ''a'') [featA] = Some 0"
  by (simp_all add: app_defs featA_def)

lemma emptyApp_facts:
  "map_current emptyApp" "placingType emptyApp = PlaceBuilding" "shape emptyApp = Rectangle"
  "user_buildings emptyApp = Some []" "threeManagerRef emptyApp = Some readyWorld"
  "buildingHeight emptyApp = 12" "timeouts emptyApp = []"
  by (simp_all add: app_defs)


lemma featNorth_throws:
  "buildMeshFromPolygon flatHost (polygon featNorth) h c = None"
  by (simp add: buildMeshFromPolygon_def featNorth_def flatHost_def)




text \<open>A building at latitude 91: the host refuses its first position, the call throws
  with the feature stored, and neither a mesh nor a deferred callback exists.\<close>

lemma append_north_throws:
  "threw (appendBuildingFeature flatHost ''r'' 2000 featNorth True emptyApp)
   \<and> buildingIds (stateOf (appendBuildingFeature flatHost ''r'' 2000 featNorth True emptyApp))
       = [Some ''u'']
   \<and> buildingHeights (stateOf (appendBuildingFeature flatHost ''r'' 2000 featNorth True emptyApp))
       = [Some 0]
   \<and> meshIds (stateOf (appendBuildingFeature flatHost ''r'' 2000 featNorth True emptyApp)) = []
   \<and> timeouts (stateOf (appendBuildingFeature flatHost ''r'' 2000 featNorth True emptyApp)) = []"
proof -
  have t: "addMeshForFeature flatHost ''r'' 2000 (setHeightProp 0 (withId ''r'' featNorth)) readyWorld
             = Threw readyWorld"
    using featNorth_throws
    by (simp add: addMeshForFeature_def Let_def setHeightProp_def withId_def readyWorld_def
        onAdd_def createThreeLayerManager_def)
  have e: "appendBuildingFeature flatHost ''r'' 2000 featNorth True emptyApp
             = Threw (emptyApp\<lparr> user_buildings := Some [setHeightProp 0 (withId ''r'' featNorth)],
                                 stored_buildings := Some [setHeightProp 0 (withId ''r'' featNorth)],
                                 buildingsCount := 1,
                                 threeManagerRef := Some readyWorld \<rparr>)"
    by (simp add: appendBuildingFeature_def emptyApp_facts Let_def t)
  show ?thesis
    unfolding e
    by (simp add: buildingIds_def buildingHeights_def meshIds_def emptyApp_facts
        setHeightProp_def withId_def featNorth_def readyWorld_def onAdd_def
        createThreeLayerManager_def)
qed

subsection \<open>Height updates\<close>

lemmas obs_defs = pendingFrames_def meshScales_def meshHeights_def sceneMeshes_def
  buildingIds_def buildingHeights_def meshIds_def meshHeight_def

lemma worldA_eval:
  "worldA = \<lparr> renderer = True, scene = Some [0], camera = Some identity4, clock = True,
              meshes = [(''a'', 0)],
              heap = [\<lparr> userData_id = Some ''a'', userData_heightMeters = Some 10, scale_z = 1,
                        extrudeDepth = 10, shapePoints = [(0, 0), (2, 0), (2, - 2), (0, - 2), (0, 0)],
                        materialColor = ''#c44e3b'', emissiveIntensity = 0.2 \<rparr>],
              frames = [], calls = [] \<rparr>"
  by (simp add: world_defs Let_def)

lemma height_props:
  "mergeProps (properties f)
     \<lparr> prop_id = None, prop_height = Some h, prop_base = None, prop_color = None,
       prop_rotation = None, prop_content = None \<rparr>
   = properties (setHeightProp h f)"
  by (simp add: mergeProps_def orElse_def setHeightProp_def)

lemma update_height_selected:
  assumes "map_current s" and "selected s = Some sel" and "user_buildings s = Some cur"
    and "findIndex (hasId sel) cur = Some idx" and "threeManagerRef s = Some w"
  shows "updateSelectedBuildingProps now
           \<lparr> prop_id = None, prop_height = Some h, prop_base = None, prop_color = None,
             prop_rotation = None, prop_content = None \<rparr> s
         = s\<lparr> user_buildings := Some (cur[idx := setHeightProp h (cur ! idx)]),
              stored_buildings := Some (cur[idx := setHeightProp h (cur ! idx)]),
              threeManagerRef := Some (updateHeight sel h now w) \<rparr>"
  using assms
  by (simp add: updateSelectedBuildingProps_def Let_def height_props) (simp add: setHeightProp_def)

lemmas anim_defs = updateHeight_def animationFrame_def runAnim_def animProgress_def
  easeOutCubic_def setScale_def jsOr_def Let_def

lemma worldA30_eval:
  "worldA30 = worldA\<lparr> heap := [(heap worldA ! 0)\<lparr> userData_heightMeters := Some 30, scale_z := 3 \<rparr>] \<rparr>"
  by (simp add: worldA30_def worldA_eval anim_defs)

lemma worldA60_eval:
  "worldA60 = worldA\<lparr> heap := [(heap worldA ! 0)\<lparr> userData_heightMeters := Some 60, scale_z := 2 \<rparr>] \<rparr>"
  by (simp add: worldA60_def worldA30_eval worldA_eval anim_defs)

lemma appA30_eval:
  "appA30 = appA\<lparr> user_buildings := Some [setHeightProp 30 featA],
                   stored_buildings := Some [setHeightProp 30 featA],
                   threeManagerRef := Some worldA30 \<rparr>"
  by (simp add: appA30_def update_height_selected [OF appA_facts(1,2,3,5,4)] frameTick_def
      worldA30_def)

lemma appA60_eval:
  "appA60 = appA\<lparr> user_buildings := Some [setHeightProp 60 featA],
                   stored_buildings := Some [setHeightProp 60 featA],
                   threeManagerRef := Some worldA60 \<rparr>"
proof -
  have f: "map_current appA30" "selected appA30 = Some ''a''"
    "user_buildings appA30 = Some [setHeightProp 30 featA]"
    "findIndex (hasId ''a'') [setHeightProp 30 featA] = Some 0"
    "threeManagerRef appA30 = Some worldA30"
    using appA_facts
    by (simp_all add: appA30_eval selected_def findIndex_def hasId_def setHeightProp_def featA_def)
  show ?thesis
    by (simp add: appA60_def update_height_selected [OF f] frameTick_def worldA60_def)
       (simp add: appA30_eval setHeightProp_def)
qed

text \<open>
  C3, as the specification states it: after a height update has run to its end the
  height of the mesh, the depth of its geometry times its scale, is the new height, also
  for a second update after a first one. \<open>updateHeight\<close> animates the scale to the new
  height divided by the height of the previous update, while the geometry keeps the depth
  it was built with. Building \<open>a\<close>, loaded with height 10: the update to 30 ends with a
  mesh of height 30; the update to 60 that follows ends with scale 2 and a mesh of height
  20, while the stored height is 60.
\<close>

theorem height_second_update:
  "buildingHeights appA = [Some 10] \<and> meshHeights appA = [10]
   \<and> buildingHeights appA30 = [Some 30] \<and> meshHeights appA30 = [30] \<and> pendingFrames appA30 = []
   \<and> buildingHeights appA60 = [Some 60] \<and> meshHeights appA60 = [20] \<and> pendingFrames appA60 = []"
proof -
  have a: "buildingHeights appA = [Some 10] \<and> meshHeights appA = [10]"
    by (simp add: obs_defs appA_facts worldA_eval) (simp add: featA_def)
  have b: "buildingHeights appA30 = [Some 30] \<and> meshHeights appA30 = [30] \<and> pendingFrames appA30 = []"
    by (simp add: obs_defs appA30_eval worldA30_eval worldA_eval setHeightProp_def)
  have c: "buildingHeights appA60 = [Some 60] \<and> meshHeights appA60 = [20] \<and> pendingFrames appA60 = []"
    by (simp add: obs_defs appA60_eval worldA60_eval worldA_eval setHeightProp_def)
  show ?thesis using a b c by simp
qed

subsection \<open>Animation callbacks\<close>

lemma runAnim_frames:
  "frames (runAnim now a w) = frames w @ (if animProgress now a < 1 then [a] else [])"
  by (simp add: runAnim_def Let_def)

lemma runAnim_heap:
  "heap (runAnim now a w) =
     setScale (animMesh a)
       (if animProgress now a < 1
        then animFrom a + (animTo a - animFrom a) * easeOutCubic (animProgress now a)
        else animTo a) (heap w)"
proof (cases "animMesh a < length (heap w)")
  case True
  then show ?thesis by (simp add: runAnim_def Let_def setScale_def)
next
  case False
  then show ?thesis by (simp add: runAnim_def Let_def setScale_def list_update_beyond)
qed

lemma fold_runAnim_frames:
  "frames (fold (runAnim now) as w) = frames w @ filter (\<lambda>a. animProgress now a < 1) as"
  by (induction as arbitrary: w) (simp_all add: runAnim_frames)

lemma animationFrame_frames:
  "frames (animationFrame now w) = filter (\<lambda>a. animProgress now a < 1) (frames w)"
  by (simp add: animationFrame_def fold_runAnim_frames)

lemma map_of_mapDelete: "map_of (mapDelete i m) i = None"
  by (induction m) (auto simp: mapDelete_def)

lemma removeById_keeps:
  "frames (removeById i w) = frames w" "heap (removeById i w) = heap w"
  by (simp_all add: removeById_def split: option.splits)

lemma removeById_found:
  assumes "scene w = Some children" and "map_of (meshes w) i = Some m"
  shows "removeById i w = w\<lparr> scene := Some (removeAll m children), meshes := mapDelete i (meshes w) \<rparr>"
  using assms by (simp add: removeById_def)

lemma worldH_eval:
  "worldH = worldA\<lparr> heap := [(heap worldA ! 0)\<lparr> userData_heightMeters := Some 30 \<rparr>],
                    frames := [Height 0 1000 1 3] \<rparr>"
  by (simp add: worldH_def worldA_eval anim_defs)

lemma updateHeight_found:
  assumes "map_of (meshes w) i = Some r"
  shows "updateHeight i h now w =
           w\<lparr> heap := (heap w)[r := (heap w ! r)\<lparr> userData_heightMeters := Some h \<rparr>],
              frames := frames w @
                [Height r now (scale_z (heap w ! r))
                   (h / jsOr (case userData_heightMeters (heap w ! r) of Some x \<Rightarrow> x | None \<Rightarrow> h)
                             (jsOr h 1))] \<rparr>"
  using assms by (simp add: updateHeight_def Let_def)

lemma worldH1250_eval:
  "animationFrame 1250 worldH =
     worldA\<lparr> heap := [(heap worldA ! 0)\<lparr> userData_heightMeters := Some 30, scale_z := 11 / 4 \<rparr>],
             frames := [Height 0 1000 1 3] \<rparr>"
  by (simp add: worldH_eval worldA_eval animationFrame_def runAnim_def animProgress_def
      easeOutCubic_def setScale_def Let_def power3_eq_cube)

lemma worldHH_eval:
  "worldHH =
     worldA\<lparr> heap := [(heap worldA ! 0)\<lparr> userData_heightMeters := Some 60, scale_z := 11 / 4 \<rparr>],
             frames := [Height 0 1000 1 3, Height 0 1250 (11 / 4) 2] \<rparr>"
  by (simp add: worldHH_def worldH1250_eval) (simp add: worldA_eval updateHeight_def Let_def jsOr_def)

lemma fold_runAnim_heap:
  "heap (fold (runAnim now) as w) =
     fold (\<lambda>a. setScale (animMesh a)
                 (if animProgress now a < 1
                  then animFrom a + (animTo a - animFrom a) * easeOutCubic (animProgress now a)
                  else animTo a)) as (heap w)"
  by (induction as arbitrary: w) (simp_all add: runAnim_heap)

lemma animationFrame_heap:
  "heap (animationFrame now w) =
     fold (\<lambda>a. setScale (animMesh a)
                 (if animProgress now a < 1
                  then animFrom a + (animTo a - animFrom a) * easeOutCubic (animProgress now a)
                  else animTo a)) (frames w) (heap w)"
  by (simp add: animationFrame_def fold_runAnim_heap)

lemma animationFrames_same:
  "frames w = frames v \<Longrightarrow> heap w = heap v \<Longrightarrow>
     frames (fold animationFrame nows w) = frames (fold animationFrame nows v)
   \<and> heap (fold animationFrame nows w) = heap (fold animationFrame nows v)"
proof (induction nows arbitrary: w v)
  case Nil
  then show ?case by simp
next
  case (Cons n nows)
  have "frames (animationFrame n w) = frames (animationFrame n v)"
    "heap (animationFrame n w) = heap (animationFrame n v)"
    using Cons.prems by (simp_all add: animationFrame_frames animationFrame_heap)
  from Cons.IH [OF this] show ?case by simp
qed

text \<open>
  C1, amended: removing a feature's mesh takes it out of the scene and out of the index
  at once, and that is all it does. Whatever animation callbacks are requested stay
  requested and the mesh objects stay as they are; every later animation frame, and every
  sequence of them, leaves the queue and the mesh objects exactly as it would without the
  removal. At a frame every requested callback writes the scale of its mesh, the removed
  one included, and a callback leaves the queue only when its own progress has reached 1,
  having set the scale to its end value.
\<close>

theorem removal_leaves_animations:
  assumes "scene w = Some children" and "map_of (meshes w) i = Some m"
  shows "map_of (meshes (removeById i w)) i = None
       \<and> scene (removeById i w) = Some (removeAll m children)
       \<and> frames (removeById i w) = frames w
       \<and> heap (removeById i w) = heap w
       \<and> frames (fold animationFrame nows (removeById i w)) = frames (fold animationFrame nows w)
       \<and> heap (fold animationFrame nows (removeById i w)) = heap (fold animationFrame nows w)
       \<and> frames (animationFrame now (removeById i w))
           = filter (\<lambda>a. animProgress now a < 1) (frames w)
       \<and> heap (animationFrame now (removeById i w))
           = fold (\<lambda>a. setScale (animMesh a)
                     (if animProgress now a < 1
                      then animFrom a + (animTo a - animFrom a) * easeOutCubic (animProgress now a)
                      else animTo a)) (frames w) (heap w)"
proof -
  have r: "removeById i w = w\<lparr> scene := Some (removeAll m children), meshes := mapDelete i (meshes w) \<rparr>"
    by (rule removeById_found [OF assms])
  have c1: "map_of (meshes (removeById i w)) i = None"
    by (simp add: r map_of_mapDelete)
  have c2: "scene (removeById i w) = Some (removeAll m children)"
    by (simp add: r)
  have k: "frames (removeById i w) = frames w" "heap (removeById i w) = heap w"
    by (rule removeById_keeps)+
  have s: "frames (fold animationFrame nows (removeById i w)) = frames (fold animationFrame nows w)
         \<and> heap (fold animationFrame nows (removeById i w)) = heap (fold animationFrame nows w)"
    by (rule animationFrames_same [OF k])
  have f: "frames (animationFrame now (removeById i w))
             = filter (\<lambda>a. animProgress now a < 1) (frames w)"
    by (simp add: animationFrame_frames k)
  have h: "heap (animationFrame now (removeById i w))
           = fold (\<lambda>a. setScale (animMesh a)
                     (if animProgress now a < 1
                      then animFrom a + (animTo a - animFrom a) * easeOutCubic (animProgress now a)
                      else animTo a)) (frames w) (heap w)"
    by (simp add: animationFrame_heap k)
  show ?thesis
    using c1 c2 k s f h by simp
qed

theorem removal_leaves_animations_witness:
  "scene worldHH = Some [0] \<and> map_of (meshes worldHH) ''a'' = Some 0
   \<and> map_of (meshes (removeById ''a'' worldHH)) ''a'' = None
   \<and> scene (removeById ''a'' worldHH) = Some []
   \<and> frames (removeById ''a'' worldHH) = [Height 0 1000 1 3, Height 0 1250 (11 / 4) 2]
   \<and> frames (animationFrame 1500 (removeById ''a'' worldHH)) = [Height 0 1250 (11 / 4) 2]
   \<and> map scale_z (heap (animationFrame 1500 (removeById ''a'' worldHH))) = [67 / 32]
   \<and> frames (fold animationFrame [1500, 1750] (removeById ''a'' worldHH)) = []
   \<and> map scale_z (heap (fold animationFrame [1500, 1750] (removeById ''a'' worldHH))) = [2]"
proof -
  have h: "scene worldHH = Some [0]" "map_of (meshes worldHH) ''a'' = Some 0"
    by (simp_all add: worldHH_eval worldA_eval)
  have f: "frames worldHH = [Height 0 1000 1 3, Height 0 1250 (11 / 4) 2]"
    by (simp add: worldHH_eval)
  have p: "animProgress 1500 (Height 0 1000 1 3) = 1" "animProgress 1500 (Height 0 1250 (11 / 4) 2) = 1 / 2"
    by (simp_all add: animProgress_def)
  have one: "map scale_z (heap (animationFrame 1500 worldHH)) = [67 / 32]"
    by (simp add: worldHH_eval worldA_eval animationFrame_def runAnim_def animProgress_def
        easeOutCubic_def setScale_def Let_def power3_eq_cube)
  have two: "frames (fold animationFrame [1500, 1750] worldHH) = []
           \<and> map scale_z (heap (fold animationFrame [1500, 1750] worldHH)) = [2]"
    by (simp add: worldHH_eval worldA_eval animationFrame_def runAnim_def animProgress_def
        easeOutCubic_def setScale_def Let_def power3_eq_cube)
  from removal_leaves_animations [where now = 1500 and nows = "[1500, 1750]", OF h]
  have e: "map_of (meshes (removeById ''a'' worldHH)) ''a'' = None"
    "scene (removeById ''a'' worldHH) = Some (removeAll 0 [0])"
    "frames (removeById ''a'' worldHH) = frames worldHH"
    "frames (fold animationFrame [1500, 1750] (removeById ''a'' worldHH))
       = frames (fold animationFrame [1500, 1750] worldHH)"
    "heap (fold animationFrame [1500, 1750] (removeById ''a'' worldHH))
       = heap (fold animationFrame [1500, 1750] worldHH)"
    "frames (animationFrame 1500 (removeById ''a'' worldHH))
       = filter (\<lambda>a. animProgress 1500 a < 1) (frames worldHH)"
    "heap (removeById ''a'' worldHH) = heap worldHH"
    by blast+
  have same: "heap (animationFrame 1500 (removeById ''a'' worldHH)) = heap (animationFrame 1500 worldHH)"
    by (simp add: animationFrame_heap e(3,7))
  show ?thesis
    using h one two e(4,5) by (simp add: e(1-3,6) same f p)
qed

lemma appH_eval:
  "appH = appA\<lparr> user_buildings := Some [setHeightProp 30 featA],
                 stored_buildings := Some [setHeightProp 30 featA],
                 threeManagerRef := Some worldH \<rparr>"
  by (simp add: appH_def update_height_selected [OF appA_facts(1,2,3,5,4)] worldH_def)

lemma appD_eval:
  "appD = appA\<lparr> user_buildings := Some [], stored_buildings := Some [], buildingsCount := 0,
                 selectedId := None, threeManagerRef := Some (removeById ''a'' worldH) \<rparr>"
proof -
  have f: "map_current appH" "selected appH = Some ''a''"
    "user_buildings appH = Some [setHeightProp 30 featA]"
    "findIndex (hasId ''a'') [setHeightProp 30 featA] = Some 0"
    "threeManagerRef appH = Some worldH"
    using appA_facts
    by (simp_all add: appH_eval selected_def findIndex_def hasId_def setHeightProp_def featA_def)
  show ?thesis
    by (simp add: appD_def deleteSelected_def f splice1_def) (simp add: appH_eval)
qed

lemma removed_eval:
  "removeById ''a'' worldH = worldH\<lparr> scene := Some [], meshes := [] \<rparr>"
  by (simp add: removeById_def worldH_eval worldA_eval mapDelete_def)

text \<open>
  C1, as the specification states it: deleting a feature cancels the animation of its
  mesh, and no later tick updates the mesh. Building \<open>a\<close> is deleted right after its
  height was set to 30: store, index and scene are empty, the height callback is still
  requested, the frame at 1250 moves the scale of the removed mesh from 1 to 11/4, and the
  frame at 1500 completes the animation at scale 3.
\<close>

theorem deleted_mesh_still_animated:
  "buildingIds appD = [] \<and> meshIds appD = [] \<and> sceneMeshes appD = []
   \<and> pendingFrames appD = [Height 0 1000 1 3]
   \<and> meshScales appD = [1]
   \<and> meshScales (frameTick 1250 appD) = [11 / 4]
   \<and> pendingFrames (frameTick 1250 appD) = [Height 0 1000 1 3]
   \<and> meshScales (frameTick 1500 (frameTick 1250 appD)) = [3]
   \<and> pendingFrames (frameTick 1500 (frameTick 1250 appD)) = []"
  by (simp add: obs_defs appD_eval removed_eval frameTick_def)
     (simp add: worldH_eval worldA_eval animationFrame_def runAnim_def animProgress_def
        easeOutCubic_def setScale_def Let_def power3_eq_cube)

text \<open>
  C7, amended: a run of an animation callback at time \<open>now\<close> has the progress
  \<open>t = min 1 ((now - start) / duration)\<close>; while \<open>t < 1\<close> it sets the scale to the
  value interpolated with the cubic ease-out and requests itself again, and once \<open>t\<close> has
  reached 1 it sets the scale to the end value and is not requested again. A height
  update for a feature with a mesh requests a new callback that starts from the scale the
  mesh has at that moment; the callbacks requested before all stay requested.
\<close>

theorem animation_step_and_restart:
  assumes "animMesh a < length (heap w)" and "map_of (meshes w) i = Some r"
  shows "animProgress now a = min 1 ((now - animStart a) / animDur a)
       \<and> scale_z (heap (runAnim now a w) ! animMesh a)
           = (if animProgress now a < 1
              then animFrom a + (animTo a - animFrom a) * (1 - (1 - animProgress now a) ^ 3)
              else animTo a)
       \<and> frames (runAnim now a w) = (if animProgress now a < 1 then frames w @ [a] else frames w)
       \<and> frames (updateHeight i h now w)
           = frames w @
               [Height r now (scale_z (heap w ! r))
                  (h / jsOr (case userData_heightMeters (heap w ! r) of Some x \<Rightarrow> x | None \<Rightarrow> h)
                            (jsOr h 1))]"
  using assms(1)
  by (simp add: animProgress_def runAnim_heap runAnim_frames setScale_def easeOutCubic_def
      updateHeight_found [OF assms(2)])

theorem animation_step_and_restart_witness:
  "animMesh (Height 0 1000 1 3) < length (heap (animationFrame 1250 worldH))
   \<and> map_of (meshes (animationFrame 1250 worldH)) ''a'' = Some 0
   \<and> animProgress 1500 (Height 0 1000 1 3) = 1
   \<and> scale_z (heap (runAnim 1500 (Height 0 1000 1 3) (animationFrame 1250 worldH)) ! 0) = 3
   \<and> frames (updateHeight ''a'' 60 1250 (animationFrame 1250 worldH))
       = [Height 0 1000 1 3, Height 0 1250 (11 / 4) 2]"
proof -
  have h: "animMesh (Height 0 1000 1 3) < length (heap (animationFrame 1250 worldH))"
    "map_of (meshes (animationFrame 1250 worldH)) ''a'' = Some 0"
    by (simp_all add: worldH1250_eval worldA_eval)
  have v: "heap (animationFrame 1250 worldH) ! 0
             = (heap worldA ! 0)\<lparr> userData_heightMeters := Some 30, scale_z := 11 / 4 \<rparr>"
    "frames (animationFrame 1250 worldH) = [Height 0 1000 1 3]"
    by (simp_all add: worldH1250_eval)
  from animation_step_and_restart [where now = 1500 and h = 60, OF h]
    animation_step_and_restart [where now = 1250 and h = 60, OF h]
  show ?thesis
    using h by (simp add: v jsOr_def)
qed

text \<open>
  C7, as the specification states it: a new task for a feature and kind replaces the
  active one, so that at most one is active. A second height update of building \<open>a\<close>,
  made while the first is half way, leaves two height callbacks requested for the same
  mesh; both run at the next frame, the first one completing.
\<close>

theorem two_height_tasks_for_one_mesh:
  "map_of (meshes worldHH) ''a'' = Some 0
   \<and> frames worldHH = [Height 0 1000 1 3, Height 0 1250 (11 / 4) 2]
   \<and> length (heightTasksFor 0 (frames worldHH)) = 2
   \<and> map scale_z (heap (animationFrame 1500 worldHH)) = [67 / 32]
   \<and> frames (animationFrame 1500 worldHH) = [Height 0 1250 (11 / 4) 2]"
  by (simp add: worldHH_eval worldA_eval animationFrame_def runAnim_def animProgress_def
      easeOutCubic_def setScale_def Let_def power3_eq_cube heightTasksFor_def)

subsection \<open>Meshes and the store\<close>

text \<open>
  C2, as the specification states it: no mesh remains in the scene or in the index for a
  feature that is no longer in the store, also after an import that replaces the store.
  \<open>importGeoJSON\<close> adds a mesh for every imported feature and removes none (the button
  that clears the buildings does remove every mesh): after importing a file that holds
  only building \<open>b\<close> into the component that holds building \<open>a\<close>, the store holds
  \<open>b\<close> alone, and the index and the scene still hold the mesh of \<open>a\<close>.
\<close>

theorem import_leaves_old_mesh:
  "buildingIds appA = [Some ''a''] \<and> meshIds appA = [''a''] \<and> sceneMeshes appA = [0]
   \<and> buildingIds appImported = [Some ''b'']
   \<and> meshIds appImported = [''a'', ''b'']
   \<and> sceneMeshes appImported = [0, 1]"
proof -
  have a: "buildingIds appA = [Some ''a''] \<and> meshIds appA = [''a''] \<and> sceneMeshes appA = [0]"
    by (simp add: obs_defs appA_facts worldA_eval) (simp add: featA_def)
  have i: "appImported = appA\<lparr> user_buildings := Some [featB], stored_buildings := Some [featB],
                               buildingsCount := 1, error := None,
                               threeManagerRef :=
                                 Some (stateOf (addMeshForFeature flatHost ''r'' 3000 featB worldA)) \<rparr>"
    by (simp add: appImported_def importGeoJSON_def appA_facts Let_def enumerate_eq_zip)
  have w: "meshes (stateOf (addMeshForFeature flatHost ''r'' 3000 featB worldA))
             = [(''a'', 0), (''b'', 1)]
         \<and> scene (stateOf (addMeshForFeature flatHost ''r'' 3000 featB worldA)) = Some [0, 1]"
    by (simp add: addMeshForFeature_def worldA_eval featB_def Let_def mapSet_def sceneAdd_def
        buildMeshFromPolygon_def flatHost_def squareRing_def polygonCentroidCoords_def
        polygonCentroid_def)
  show ?thesis
    using a w by (simp add: obs_defs i) (simp add: featB_def)
qed

subsection \<open>Placing a building\<close>





lemma addAtCenter_rectangle:
  assumes "map_current s" and "placingType s = PlaceBuilding" and "shape s = Rectangle"
  shows "addAtCenter H rid now c s =
           appendBuildingFeature H rid now
             (newBuildingFeature rid
                (rectanglePolygonAround (fst c) (snd c) (buildingWidth s) (buildingDepth s) 0) s)
             True s"
  using assms by (simp add: addAtCenter_def Let_def)

lemma newBuildingFeature_props:
  "withId rid (newBuildingFeature rid coords s) = newBuildingFeature rid coords s"
  "prop_id (properties (newBuildingFeature rid coords s)) = Some rid"
  "prop_height (properties (newBuildingFeature rid coords s)) = Some (buildingHeight s)"
  "polygon (newBuildingFeature rid coords s) = coords"
  "hasId rid (setHeightProp h (newBuildingFeature rid coords s))"
  "setHeightProp h2 (setHeightProp h (newBuildingFeature rid coords s))
     = setHeightProp h2 (newBuildingFeature rid coords s)"
  "prop_height (properties (setHeightProp h f)) = Some h"
  "polygon (setHeightProp h f) = polygon f"
  by (simp_all add: withId_def newBuildingFeature_def hasId_def setHeightProp_def)





subsection \<open>The bookkeeping of the manager\<close>

text \<open>
  Adding a mesh, whether the call returns or throws, and removing one keep the
  bookkeeping in order, so an id is indexed at
  most once and the scene holds exactly the indexed meshes; with a scene present,
  deleting the selected building takes its id out of the index, and clearing the
  buildings empties the index and the scene.
\<close>

lemma map_of_None_keys: "map_of m k = None \<longleftrightarrow> k \<notin> fst ` set m"
  by (simp add: map_of_eq_None_iff)

lemma mapDelete_absent: "k \<notin> fst ` set m \<Longrightarrow> mapDelete k m = m"
  by (induction m) (auto simp: mapDelete_def)

lemma mapDelete_keys: "fst ` set (mapDelete k m) = fst ` set m - {k}"
  by (auto simp: mapDelete_def)

lemma mapDelete_distinct:
  "distinct (map fst m) \<Longrightarrow> distinct (map fst (mapDelete k m))"
  "distinct (map snd m) \<Longrightarrow> distinct (map snd (mapDelete k m))"
  by (simp_all add: mapDelete_def distinct_map_filter)

lemma mapDelete_values:
  assumes "distinct (map fst m)" and "distinct (map snd m)" and "map_of m k = Some r"
  shows "snd ` set (mapDelete k m) = snd ` set m - {r}"
proof -
  have in_m: "(k, r) \<in> set m" using assms(3) by (rule map_of_SomeD)
  have "\<And>k' r'. (k', r') \<in> set m \<Longrightarrow> (k' \<noteq> k) = (r' \<noteq> r)"
  proof -
    fix k' r' assume m: "(k', r') \<in> set m"
    show "(k' \<noteq> k) = (r' \<noteq> r)"
    proof
      assume "k' \<noteq> k"
      show "r' \<noteq> r"
      proof
        assume "r' = r"
        with m in_m assms(2) have "(k', r) = (k, r)"
          by (metis distinct_map inj_onD snd_conv)
        with \<open>k' \<noteq> k\<close> show False by simp
      qed
    next
      assume "r' \<noteq> r"
      show "k' \<noteq> k"
      proof
        assume "k' = k"
        with m in_m assms(1) have "r' = r"
          by (metis distinct_map inj_onD fst_conv prod.inject)
        with \<open>r' \<noteq> r\<close> show False by simp
      qed
    qed
  qed
  then show ?thesis
    by (force simp: mapDelete_def)
qed

lemma removeById_wellKept: "wellKept w \<Longrightarrow> wellKept (removeById i w)"
proof -
  assume k: "wellKept w"
  show ?thesis
  proof (cases "map_of (meshes w) i")
    case None
    then show ?thesis using k by (simp add: removeById_def)
  next
    case (Some m)
    show ?thesis
    proof (cases "scene w")
      case None
      then show ?thesis using k Some by (simp add: removeById_def)
    next
      case (Some children)
      have v: "snd ` set (mapDelete i (meshes w)) = indexed w - {m}"
        using k \<open>map_of (meshes w) i = Some m\<close>
        by (simp add: wellKept_def indexed_def mapDelete_values)
      show ?thesis
        using k Some \<open>map_of (meshes w) i = Some m\<close> v
        by (auto simp: removeById_def wellKept_def indexed_def mapDelete_distinct distinct_removeAll)
    qed
  qed
qed

lemma removeById_unindexed:
  assumes "scene w = Some children"
  shows "i \<notin> fst ` set (meshes (removeById i w))"
proof (cases "map_of (meshes w) i")
  case None
  have "removeById i w = w" using None by (simp add: removeById_def)
  moreover have "i \<notin> fst ` set (meshes w)" using None by (simp add: map_of_None_keys)
  ultimately show ?thesis by simp
next
  case (Some m)
  then show ?thesis using assms by (simp add: removeById_def mapDelete_keys)
qed

lemma removeById_scene: "(scene (removeById i w) = None) = (scene w = None)"
  by (simp add: removeById_def split: option.splits)

lemma removeById_keys:
  "scene w = Some children \<Longrightarrow> fst ` set (meshes (removeById i w)) = fst ` set (meshes w) - {i}"
proof (cases "map_of (meshes w) i")
  case None
  assume "scene w = Some children"
  from None have "i \<notin> fst ` set (meshes w)" by (simp add: map_of_None_keys)
  with None show ?thesis by (simp add: removeById_def)
next
  case (Some m)
  assume "scene w = Some children"
  with Some show ?thesis by (simp add: removeById_def mapDelete_keys)
qed

lemma fold_removeById_wellKept: "wellKept w \<Longrightarrow> wellKept (fold removeById ks w)"
  by (induction ks arbitrary: w) (simp_all add: removeById_wellKept)

lemma fold_removeById_keys:
  "scene w \<noteq> None \<Longrightarrow>
     fst ` set (meshes (fold removeById ks w)) = fst ` set (meshes w) - set ks
   \<and> scene (fold removeById ks w) \<noteq> None"
proof (induction ks arbitrary: w)
  case Nil
  then show ?case by simp
next
  case (Cons k ks)
  from Cons.prems obtain children where c: "scene w = Some children" by auto
  have s: "scene (removeById k w) \<noteq> None"
    using Cons.prems by (simp add: removeById_scene)
  from Cons.IH [OF s] removeById_keys [OF c, of k]
  show ?case by auto
qed

lemma clear_empties_index:
  assumes "scene w \<noteq> None"
  shows "meshes (fold removeById (map fst (meshes w)) w) = []"
proof -
  have "fst ` set (meshes (fold removeById (map fst (meshes w)) w)) = {}"
    using fold_removeById_keys [OF assms, of "map fst (meshes w)"] by simp
  then show ?thesis by simp
qed

lemma clear_empties_scene:
  assumes "wellKept w" and "scene w \<noteq> None"
  shows "scene (fold removeById (map fst (meshes w)) w) = Some []"
proof -
  let ?w = "fold removeById (map fst (meshes w)) w"
  have k: "wellKept ?w" using assms(1) by (rule fold_removeById_wellKept)
  have e: "meshes ?w = []" using assms(2) by (rule clear_empties_index)
  have n: "scene ?w \<noteq> None"
    using fold_removeById_keys [OF assms(2), of "map fst (meshes w)"] by simp
  then obtain children where c: "scene ?w = Some children" by auto
  with k e have "set children = {}" by (simp add: wellKept_def indexed_def)
  with c show ?thesis by simp
qed

lemma mapSet_absent: "k \<notin> fst ` set m \<Longrightarrow> mapSet k v m = m @ [(k, v)]"
  by (simp add: mapSet_def)

lemma addMesh_wellKept:
  assumes "wellKept w"
  shows "wellKept (stateOf (addMeshForFeature H rid now feature w))"
proof -
  define i where "i = (case prop_id (properties feature) of Some j \<Rightarrow> j | None \<Rightarrow> rid)"
  define w1 where "w1 = (case map_of (meshes w) i of
                  Some old \<Rightarrow> w\<lparr> scene := sceneRemove old (scene w),
                                 meshes := mapDelete i (meshes w) \<rparr>
                | None \<Rightarrow> w)"
  have abs: "i \<notin> fst ` set (meshes w1)"
  proof (cases "map_of (meshes w) i")
    case None
    have "w1 = w" using None by (simp add: w1_def)
    moreover have "i \<notin> fst ` set (meshes w)" using None by (simp add: map_of_None_keys)
    ultimately show ?thesis by simp
  next
    case (Some old)
    then show ?thesis by (simp add: w1_def mapDelete_keys)
  qed
  have k1: "wellKept w1"
  proof (cases "map_of (meshes w) i")
    case None
    then show ?thesis using assms by (simp add: w1_def)
  next
    case (Some old)
    have v: "snd ` set (mapDelete i (meshes w)) = indexed w - {old}"
      using assms Some by (simp add: wellKept_def indexed_def mapDelete_values)
    show ?thesis
      using assms Some v
      by (cases "scene w")
         (auto simp: w1_def wellKept_def indexed_def sceneRemove_def mapDelete_distinct
            distinct_removeAll)
  qed
  have fresh: "length (heap w1) \<notin> indexed w1"
    using k1 by (auto simp: wellKept_def)
  show ?thesis
  proof (cases "buildMeshFromPolygon H (polygon feature)
                  (case prop_height (properties feature) of Some h \<Rightarrow> h | None \<Rightarrow> 10)
                  (case prop_color (properties feature) of Some c \<Rightarrow> c | None \<Rightarrow> ''#c44e3b'')")
    case None
    then have "addMeshForFeature H rid now feature w = Threw w1"
      by (simp add: addMeshForFeature_def Let_def i_def [symmetric] w1_def [symmetric])
    with k1 show ?thesis by simp
  next
    case (Some built)
    define m where "m = heap (stateOf (addMeshForFeature H rid now feature w)) ! length (heap w1)"
    have r: "stateOf (addMeshForFeature H rid now feature w) =
             w1\<lparr> heap := heap w1 @ [m],
                 scene := sceneAdd (length (heap w1)) (scene w1),
                 meshes := meshes w1 @ [(i, length (heap w1))],
                 frames := frames w1 @ [Rise (length (heap w1)) now] \<rparr>"
      unfolding m_def using abs Some
      by (simp add: addMeshForFeature_def Let_def i_def [symmetric] w1_def [symmetric]
          mapSet_absent)
    show ?thesis
      unfolding r using k1 abs fresh
      by (cases "scene w1") (auto simp: wellKept_def indexed_def sceneAdd_def less_Suc_eq)
  qed
qed

lemma distinct_keys_once:
  "distinct (map fst m) \<Longrightarrow> length (filter (\<lambda>e. fst e = i) m) \<le> 1"
proof (induction m)
  case Nil
  then show ?case by simp
next
  case (Cons e m)
  show ?case
  proof (cases "fst e = i")
    case True
    from Cons.prems have "fst e \<notin> fst ` set m" by simp
    with True have "\<forall>x\<in>set m. fst x \<noteq> i" by blast
    then have "filter (\<lambda>e. fst e = i) m = []" by (simp add: filter_empty_conv)
    with True show ?thesis by simp
  next
    case False
    with Cons show ?thesis by simp
  qed
qed

lemma addMesh_indexes_once:
  assumes "wellKept w"
  shows "length (filter (\<lambda>e. fst e = i)
                   (meshes (stateOf (addMeshForFeature H rid now feature w)))) \<le> 1"
proof -
  have "distinct (map fst (meshes (stateOf (addMeshForFeature H rid now feature w))))"
    using addMesh_wellKept [OF assms, of H rid now feature] by (simp add: wellKept_def)
  then show ?thesis by (rule distinct_keys_once)
qed

lemma readyWorld_wellKept: "wellKept readyWorld"
  by (simp add: wellKept_def indexed_def readyWorld_def onAdd_def createThreeLayerManager_def)

lemma clearBuildings_index:
  assumes "map_current s" and "user_buildings s = Some cur" and "threeManagerRef s = Some w"
    and "scene w \<noteq> None"
  shows "buildingIds (clearBuildings s) = []" and "meshIds (clearBuildings s) = []"
  using assms by (simp_all add: clearBuildings_def buildingIds_def meshIds_def clear_empties_index)

lemma clearBuildings_scene:
  assumes "map_current s" and "user_buildings s = Some cur" and "threeManagerRef s = Some w"
    and "scene w \<noteq> None" and "wellKept w"
  shows "sceneMeshes (clearBuildings s) = []"
  using assms by (simp add: clearBuildings_def sceneMeshes_def clear_empties_scene)

lemma deleteSelected_index:
  assumes "map_current s" and "selected s = Some sel" and "user_buildings s = Some cur"
    and "findIndex (hasId sel) cur = Some idx" and "threeManagerRef s = Some w"
    and "scene w = Some children"
  shows "sel \<notin> set (meshIds (deleteSelected s))"
  using assms removeById_unindexed [OF assms(6), of sel]
  by (simp add: deleteSelected_def meshIds_def)

subsection \<open>The mesh of a placed building\<close>

text \<open>
  A building placed with the button is built with height 0, for which
  \<open>buildMeshFromPolygon\<close> takes the depth 1; the deferred height update then animates
  the scale to \<open>12 / 12 = 1\<close>. With the configured height 12 stored, the mesh ends with
  depth 1 and scale 1.
\<close>

lemma placed_mesh_height:
  "buildingHeights appPlaced = [Some 12] \<and> meshHeights appPlaced = [1]
   \<and> meshScales appPlaced = [1] \<and> pendingFrames appPlaced = []"
proof -
  let ?ring = "rectanglePolygonAround 0 0 (buildingWidth emptyApp) (buildingDepth emptyApp) 0"
  let ?f = "newBuildingFeature ''n'' ?ring emptyApp"
  let ?s1 = "addAtCenter flatHost ''n'' 0 (0, 0) emptyApp"
  have e: "?s1 = appendBuildingFeature flatHost ''n'' 0 ?f True emptyApp"
    by (simp add: addAtCenter_rectangle [OF emptyApp_facts(1-3)])
  have bw: "buildingWidth emptyApp = 12" "buildingDepth emptyApp = 12"
    "buildingColor emptyApp = ''#c44e3b''"
    by (simp_all add: emptyApp_def)
  obtain built where b: "buildMeshFromPolygon flatHost ?ring 0 ''#c44e3b'' = Some built"
    and d: "extrudeDepth built = 1"
    by (simp add: buildMeshFromPolygon_def rectangle_corners flatHost_def
        polygonCentroidCoords_def polygonCentroid_def Let_def bw jsOr_def)
  have w1: "addMeshForFeature flatHost ''n'' 0 (setHeightProp 0 ?f) readyWorld
              = Returned (readyWorld\<lparr> scene := Some [0], meshes := [(''n'', 0)],
                              heap := [built\<lparr> userData_id := Some ''n'',
                                             userData_heightMeters := Some 0,
                                             scale_z := 0.001 \<rparr>],
                              frames := [Rise 0 0] \<rparr>)"
    using b
    by (simp add: addMeshForFeature_def Let_def setHeightProp_def newBuildingFeature_def
        readyWorld_def onAdd_def createThreeLayerManager_def sceneAdd_def mapSet_def bw)
  have s1: "?s1 = Returned (emptyApp\<lparr> user_buildings := Some [setHeightProp 0 ?f],
                              stored_buildings := Some [setHeightProp 0 ?f],
                              buildingsCount := 1,
                              threeManagerRef :=
                                Some (readyWorld\<lparr> scene := Some [0], meshes := [(''n'', 0)],
                                        heap := [built\<lparr> userData_id := Some ''n'',
                                                       userData_heightMeters := Some 0,
                                                       scale_z := 0.001 \<rparr>],
                                        frames := [Rise 0 0] \<rparr>),
                              timeouts := [\<lparr> due = 450, forId = ''n'', targetHeight = 12 \<rparr>] \<rparr>)"
    unfolding e
    by (simp add: appendBuildingFeature_def emptyApp_facts newBuildingFeature_props Let_def w1)
  show ?thesis
    unfolding appPlaced_def s1
    by (simp add: runTimeouts_def heightTimeout_def emptyApp_facts findIndex_def
        newBuildingFeature_props updateHeight_def Let_def jsOr_def frameTick_def obs_defs
        animationFrame_def runAnim_def animProgress_def easeOutCubic_def setScale_def
        setHeightProp_def newBuildingFeature_def hasId_def d)
qed

end
